theory Spec2Isabelle
  imports Complex_Main "HOL-Library.Sublist"
begin

section \<open>Numbers, results and exceptions\<close>

text \<open>
  JavaScript numbers are modelled by integers (counts, line indices, character
  offsets, top-K limits) and, where results are scored, ranked and filtered, by exact
  reals (scores, similarities, vector components): there the arithmetic of the source
  is read without rounding, NaN or infinities. The section on IEEE 754 binary64
  arithmetic below models the doubles themselves, with rounding, overflow, underflow
  and NaN; \<open>cosineSimilarity_double\<close> is \<^verbatim>\<open>cosineSimilarity\<close> computed on them.
  A function that can throw yields a \<open>completion\<close>; the \<^verbatim>\<open>Result<T, Error>\<close> union
  built by \<^verbatim>\<open>success\<close> and \<^verbatim>\<open>failure\<close> is the datatype \<open>Result\<close>.
\<close>

datatype error =
  DimensionMismatch nat nat
  | CollaboratorError string

datatype 'a completion = Returns 'a | Throws error

datatype 'a Result = Success 'a | Failure error

section \<open>Strings\<close>

text \<open>
  A string is a list of code units, here the code units below 256 (Latin-1).
  \<open>isSpace\<close> is the white-space class of regular expressions (also what
  \<^verbatim>\<open>trim\<close> strips), \<open>isWordChar\<close> is the word class (ASCII letters, digits and
  the underscore), and \<open>isLineTerminator\<close> is what the dot does not match.
\<close>

definition whiteSpaceChars :: "char list" where
  "whiteSpaceChars = [CHR 0x09, CHR 0x0A, CHR 0x0B, CHR 0x0C, CHR 0x0D, CHR 0x20, CHR 0xA0]"

definition isSpace :: "char \<Rightarrow> bool" where
  "isSpace c = (c \<in> set whiteSpaceChars)"

definition lowerLetters :: "char list" where
  "lowerLetters = ''abcdefghijklmnopqrstuvwxyz''"

definition upperLetters :: "char list" where
  "upperLetters = ''ABCDEFGHIJKLMNOPQRSTUVWXYZ''"

definition isWordChar :: "char \<Rightarrow> bool" where
  "isWordChar c = (c \<in> set (lowerLetters @ upperLetters @ ''0123456789_''))"

definition isLineTerminator :: "char \<Rightarrow> bool" where
  "isLineTerminator c = (c = CHR 0x0A \<or> c = CHR 0x0D)"

text \<open>
  \<^verbatim>\<open>toLowerCase\<close> on one code unit: the ASCII capitals, and the Latin-1 capitals
  from 192 to 222 (215, the multiplication sign, is not a letter).
\<close>

definition toLowerChar :: "char \<Rightarrow> char" where
  "toLowerChar c =
     (case map_of (zip upperLetters lowerLetters) c of
        Some l \<Rightarrow> l
      | None \<Rightarrow>
          (let n = of_char c :: nat
           in if 192 \<le> n \<and> n \<le> 222 \<and> n \<noteq> 215 then char_of (n + 32) else c))"

definition toLowerCase :: "string \<Rightarrow> string" where
  "toLowerCase s = map toLowerChar s"

definition trim :: "string \<Rightarrow> string" where
  "trim s = rev (dropWhile isSpace (rev (dropWhile isSpace s)))"

text \<open>\<^verbatim>\<open>haystack.includes(needle)\<close>: \<open>needle\<close> occurs as a contiguous substring.\<close>

fun str_includes :: "string \<Rightarrow> string \<Rightarrow> bool" where
  "str_includes [] needle = (needle = [])"
| "str_includes (c # cs) needle = (prefix needle (c # cs) \<or> str_includes cs needle)"

text \<open>\<^verbatim>\<open>parts.join(sep)\<close>.\<close>

fun join :: "string \<Rightarrow> string list \<Rightarrow> string" where
  "join sep [] = []"
| "join sep [x] = x"
| "join sep (x # y # ys) = x @ sep @ join sep (y # ys)"

text \<open>Splitting at the line feed: the pieces between line feeds; the empty string gives one empty piece.\<close>

fun splitLines :: "string \<Rightarrow> string list" where
  "splitLines [] = [ [] ]"
| "splitLines (c # cs) =
     (if c = CHR 0x0A then [] # splitLines cs
      else (case splitLines cs of [] \<Rightarrow> [ [c] ] | l # ls \<Rightarrow> (c # l) # ls))"

text \<open>
  Splitting at white space: the pieces between maximal runs of white space; a run
  at the start or at the end leaves an empty first or last piece.
\<close>

function splitWhitespace :: "string \<Rightarrow> string list" where
  "splitWhitespace [] = [ [] ]"
| "splitWhitespace (c # cs) =
     (if isSpace c then [] # splitWhitespace (dropWhile isSpace cs)
      else (case splitWhitespace cs of [] \<Rightarrow> [ [c] ] | w # ws \<Rightarrow> (c # w) # ws))"
  by pat_completeness auto
termination
  by (relation "measure length") (auto simp: length_dropWhile_le less_Suc_eq_le)

subsection \<open>The regular expressions of the query preprocessor\<close>

text \<open>
  The fragment of JavaScript regular expressions that \<^verbatim>\<open>preprocessQuery\<close> uses, all
  under the flag \<^verbatim>\<open>i\<close>: literal text, alternatives, sequences, a greedy optional
  item, greedy and lazy one-or-more over a character class, and capturing groups
  (none of them inside an alternative or inside another group's repetition).
  \<open>rmatch r s\<close> lists every way \<open>r\<close> matches a prefix of \<open>s\<close>, in the order a
  backtracking matcher tries them, each with the captured texts and the remaining
  input; the head of the list is the match JavaScript reports.

  Under \<^verbatim>\<open>i\<close> (without \<^verbatim>\<open>u\<close>) two code units match when their canonical forms agree.
  The literals of the source are ASCII, and no code unit from 128 on canonicalises
  to an ASCII one, so \<open>canonicalize\<close> only needs to fold the ASCII letters.
\<close>

definition canonicalize :: "char \<Rightarrow> char" where
  "canonicalize c = (case map_of (zip lowerLetters upperLetters) c of Some u \<Rightarrow> u | None \<Rightarrow> c)"

datatype regex =
  Lit string
  | Alt "regex list"
  | Seq "regex list"
  | Opt regex
  | Plus "char \<Rightarrow> bool"
  | LazyPlus "char \<Rightarrow> bool"
  | Group regex

fun rmatch :: "regex \<Rightarrow> string \<Rightarrow> (string list \<times> string) list" where
  "rmatch (Lit w) s =
     (if length w \<le> length s \<and> map canonicalize (take (length w) s) = map canonicalize w
      then [([], drop (length w) s)] else [])"
| "rmatch (Alt rs) s = concat (map (\<lambda>r. rmatch r s) rs)"
| "rmatch (Seq []) s = [([], s)]"
| "rmatch (Seq (r # rs)) s =
     concat (map (\<lambda>(c1, s1). map (\<lambda>(c2, s2). (c1 @ c2, s2)) (rmatch (Seq rs) s1)) (rmatch r s))"
| "rmatch (Opt r) s = rmatch r s @ [([], s)]"
| "rmatch (Plus P) s = map (\<lambda>k. ([], drop k s)) (rev [1 ..< Suc (length (takeWhile P s))])"
| "rmatch (LazyPlus P) s = map (\<lambda>k. ([], drop k s)) [1 ..< Suc (length (takeWhile P s))]"
| "rmatch (Group r) s =
     map (\<lambda>(c, s'). (take (length s - length s') s # c, s')) (rmatch r s)"

text \<open>
  The leftmost match of an unanchored expression: the text in front of it, the
  captures and the text behind it.
\<close>

fun regexSearch :: "regex \<Rightarrow> string \<Rightarrow> string \<Rightarrow> (string \<times> string list \<times> string) option" where
  "regexSearch r pre [] =
     (case rmatch r [] of [] \<Rightarrow> None | (caps, rest) # _ \<Rightarrow> Some (pre, caps, rest))"
| "regexSearch r pre (c # cs) =
     (case rmatch r (c # cs) of
        [] \<Rightarrow> regexSearch r (pre @ [c]) cs
      | (caps, rest) # _ \<Rightarrow> Some (pre, caps, rest))"

text \<open>\<open>anchored\<close> is a leading \<^verbatim>\<open>^\<close>: the match must start at the first code unit.\<close>

definition regexExec :: "bool \<Rightarrow> regex \<Rightarrow> string \<Rightarrow> (string \<times> string list \<times> string) option" where
  "regexExec anchored r s =
     (if anchored
      then (case rmatch r s of [] \<Rightarrow> None | (caps, rest) # _ \<Rightarrow> Some ([], caps, rest))
      else regexSearch r [] s)"

text \<open>
  A replacement string: literal text and group references \<^verbatim>\<open>$n\<close>. Every reference
  in the source names a group of its own expression.
\<close>

datatype piece = Txt string | Ref nat

definition expand :: "piece list \<Rightarrow> string list \<Rightarrow> string" where
  "expand template caps =
     concat (map (\<lambda>p. case p of
                        Txt t \<Rightarrow> t
                      | Ref n \<Rightarrow> (if 0 < n \<and> n \<le> length caps then caps ! (n - 1) else []))
                 template)"

text \<open>\<^verbatim>\<open>s.replace(regex, template)\<close> without the flag \<^verbatim>\<open>g\<close>: only the first match is replaced.\<close>

definition replaceRegex :: "bool \<Rightarrow> regex \<Rightarrow> piece list \<Rightarrow> string \<Rightarrow> string" where
  "replaceRegex anchored r template s =
     (case regexExec anchored r s of
        None \<Rightarrow> s
      | Some (pre, caps, rest) \<Rightarrow> pre @ expand template caps @ rest)"

section \<open>Query preprocessing (src/core/retrieval.ts)\<close>

definition whitespace :: regex where
  "whitespace = Plus isSpace"

definition commaOrSpace :: regex where
  "commaOrSpace = Plus (\<lambda>c. c = CHR '','' \<or> isSpace c)"

definition lazyAny :: regex where
  "lazyAny = LazyPlus (\<lambda>c. \<not> isLineTerminator c)"

text \<open>The four prefix patterns, each anchored at the start.\<close>

definition patterns :: "regex list" where
  "patterns =
     [Seq [Group (Alt [Lit ''hello'', Lit ''hi'', Lit ''hey'', Seq [Lit ''greeting'', Opt (Lit ''s'')]]),
           commaOrSpace],
      Seq [Group (Alt [Lit ''do you'', Lit ''can you'', Lit ''could you'', Lit ''would you'']),
           whitespace],
      Seq [Group (Lit ''please''), whitespace],
      Seq [Group (Alt [Lit ''i want to'', Lit ''i need to'', Lit ''i would like to'']),
           whitespace]]"

definition questionPatterns :: "(regex \<times> piece list) list" where
  "questionPatterns =
     [(Seq [Lit ''do you '', Group (Alt [Lit ''have'', Lit ''know'', Lit ''remember'']),
            whitespace, Group lazyAny, Lit ''?''],
       [Ref 2]),
      (Seq [Lit ''do I '', Group (Plus isWordChar), whitespace, Group lazyAny, Lit ''?''],
       [Ref 1, Txt '' '', Ref 2]),
      (Seq [Lit ''what is'', whitespace, Group lazyAny, Lit ''?''], [Ref 1]),
      (Seq [Lit (''what'' @ [CHR 0x27] @ ''s''), whitespace, Group lazyAny, Lit ''?''], [Ref 1]),
      (Seq [Lit ''where is'', whitespace, Group lazyAny, Lit ''?''], [Ref 1]),
      (Seq [Lit ''when is'', whitespace, Group lazyAny, Lit ''?''], [Ref 1])]"

text \<open>The loop over \<open>questionPatterns\<close>: the first expression that matches rewrites, then \<^verbatim>\<open>break\<close>.\<close>

fun rewriteQuestion :: "(regex \<times> piece list) list \<Rightarrow> string \<Rightarrow> string" where
  "rewriteQuestion [] processed = processed"
| "rewriteQuestion ((pattern, replace) # rest) processed =
     (case regexExec False pattern processed of
        Some _ \<Rightarrow> replaceRegex False pattern replace processed
      | None \<Rightarrow> rewriteQuestion rest processed)"

definition rewriteQuery :: "string \<Rightarrow> string" where
  "rewriteQuery query =
     (let processed = fold (\<lambda>pattern processed. replaceRegex True pattern [] processed) patterns query
      in rewriteQuestion questionPatterns processed)"

definition preprocessQuery :: "string \<Rightarrow> string" where
  "preprocessQuery query =
     (let processed = rewriteQuery query;
          trimmed = trim processed
      in if length trimmed \<ge> 3 then trimmed else query)"

section \<open>Keyword utilities (src/utils/keywords.ts)\<close>

text \<open>
  \<^verbatim>\<open>normalizeKeyword\<close> reads \<^verbatim>\<open>normalizations[word] || word\<close> from a plain object, so a
  word that names a property inherited from \<^verbatim>\<open>Object.prototype\<close> yields that
  property's value instead of a string. \<open>Inherited name\<close> stands for that value; two
  such values are the same object exactly when the names agree.
\<close>

datatype keyword = Word string | Inherited string

definition normalizations :: "(string \<times> string) list" where
  "normalizations =
     [(''travelling'', ''traveling''), (''cancelled'', ''canceled''), (''colour'', ''color''),
      (''favour'', ''favor''), (''centre'', ''center''), (''metre'', ''meter''),
      (''theatre'', ''theater''), (''analyse'', ''analyze''), (''organise'', ''organize''),
      (''realise'', ''realize'')]"

definition objectPrototypeProperties :: "string list" where
  "objectPrototypeProperties =
     [''constructor'', ''__defineGetter__'', ''__defineSetter__'', ''hasOwnProperty'',
      ''__lookupGetter__'', ''__lookupSetter__'', ''isPrototypeOf'', ''propertyIsEnumerable'',
      ''toString'', ''valueOf'', ''__proto__'', ''toLocaleString'']"

definition normalizeKeyword :: "string \<Rightarrow> keyword" where
  "normalizeKeyword word =
     (case map_of normalizations word of
        Some w \<Rightarrow> Word w
      | None \<Rightarrow> if word \<in> set objectPrototypeProperties then Inherited word else Word word)"

text \<open>What \<^verbatim>\<open>join\<close> writes for a keyword (an inherited value as V8 prints it).\<close>

definition keywordText :: "keyword \<Rightarrow> string" where
  "keywordText k =
     (case k of
        Word w \<Rightarrow> w
      | Inherited name \<Rightarrow>
          if name = ''__proto__'' then ''[object Object]''
          else ''function '' @ (if name = ''constructor'' then ''Object'' else name)
               @ ''() { [native code] }'')"

definition joinKeywords :: "keyword list \<Rightarrow> string" where
  "joinKeywords ks = join '' '' (map keywordText ks)"

definition STOP_WORDS :: "string list" where
  "STOP_WORDS =
     [''the'', ''is'', ''at'', ''which'', ''on'', ''a'', ''an'', ''and'', ''or'', ''but'', ''in'',
      ''with'', ''to'', ''for'', ''of'', ''as'', ''by'', ''from'', ''that'', ''this'', ''these'',
      ''those'', ''was'', ''were'', ''been'', ''be'', ''have'', ''has'', ''had'', ''do'', ''does'',
      ''did'', ''will'', ''would'', ''could'', ''should'', ''may'', ''might'', ''can'', ''are'',
      ''am'', ''it'', ''its'', ''what'', ''where'', ''when'', ''who'', ''why'', ''how'', ''you'',
      ''your'', ''my'', ''me'', ''i'', ''we'', ''they'', ''them'', ''their'']"

definition extractKeywords :: "string \<Rightarrow> keyword list" where
  "extractKeywords txt =
     map normalizeKeyword
       (filter (\<lambda>word. word \<notin> set STOP_WORDS)
         (filter (\<lambda>word. length word > 2)
           (splitWhitespace
             (map (\<lambda>c. if \<not> isWordChar c \<and> \<not> isSpace c then CHR '' '' else c)
                  (toLowerCase txt)))))"

text \<open>The loop that counts the query keywords found in the document's keyword set.\<close>

fun countMatches :: "keyword set \<Rightarrow> keyword list \<Rightarrow> nat \<Rightarrow> nat" where
  "countMatches docKeywordSet [] matchCount = matchCount"
| "countMatches docKeywordSet (queryKeyword # rest) matchCount =
     countMatches docKeywordSet rest
       (if queryKeyword \<in> docKeywordSet then matchCount + 1 else matchCount)"

text \<open>The loop over the windows of two consecutive query keywords.\<close>

fun partialPhraseBoost :: "string \<Rightarrow> keyword list \<Rightarrow> real \<Rightarrow> real" where
  "partialPhraseBoost docText (k1 # k2 # rest) phraseBoost =
     partialPhraseBoost docText (k2 # rest)
       (if str_includes docText (joinKeywords [k1, k2]) then max phraseBoost (15 / 100)
        else phraseBoost)"
| "partialPhraseBoost docText _ phraseBoost = phraseBoost"

definition calculateKeywordScore :: "keyword list \<Rightarrow> string \<Rightarrow> real" where
  "calculateKeywordScore queryKeywords documentText =
     (if length queryKeywords = 0 then 0
      else
        let docKeywords = extractKeywords documentText;
            docKeywordSet = set docKeywords;
            matchCount = countMatches docKeywordSet queryKeywords 0;
            baseScore = real matchCount / real (length queryKeywords);
            queryText = joinKeywords queryKeywords;
            docText = toLowerCase documentText;
            phraseBoost =
              (if str_includes docText queryText then 3 / 10
               else partialPhraseBoost docText queryKeywords 0)
        in min 1 (baseScore + phraseBoost))"

text \<open>
  \<^verbatim>\<open>calculateHybridScore(vectorSimilarity, keywordScore, vectorWeight = 0.7)\<close>: an
  omitted third argument is \<open>None\<close>.
\<close>

definition calculateHybridScore :: "real \<Rightarrow> real \<Rightarrow> real option \<Rightarrow> real" where
  "calculateHybridScore vectorSimilarity keywordScore vectorWeightArg =
     (let vectorWeight = (case vectorWeightArg of None \<Rightarrow> 7 / 10 | Some w \<Rightarrow> w);
          keywordWeight = 1 - vectorWeight
      in vectorSimilarity * vectorWeight + keywordScore * keywordWeight)"

section \<open>Chunking (src/utils/chunking.ts)\<close>

record TextChunk =
  chunk_text :: string
  startLine :: int
  endLine :: int
  charStart :: int
  charEnd :: int

record ChunkOptions =
  maxChars :: int
  overlapChars :: int

definition DEFAULT_CHUNK_OPTIONS :: ChunkOptions where
  "DEFAULT_CHUNK_OPTIONS = \<lparr>maxChars = 1600, overlapChars = 320\<rparr>"

text \<open>
  The variables of \<^verbatim>\<open>chunkText\<close> that the loop updates; \<open>startLineVar\<close> and
  \<open>charStartVar\<close> are the variables \<^verbatim>\<open>startLine\<close> and \<^verbatim>\<open>charStart\<close>, whose names the
  fields of a chunk carry.
\<close>

record chunker =
  chunks :: "TextChunk list"
  currentLines :: "string list"
  currentSize :: int
  startLineVar :: int
  charStartVar :: int

text \<open>
  \<^verbatim>\<open>xs.slice(start)\<close>: a negative \<open>start\<close> counts from the end, and both ends are
  clamped. \<^verbatim>\<open>slice(-0)\<close> is \<^verbatim>\<open>slice(0)\<close>, the whole array.
\<close>

definition sliceFrom :: "int \<Rightarrow> 'a list \<Rightarrow> 'a list" where
  "sliceFrom start xs =
     (if start < 0 then drop (nat (max (int (length xs) + start) 0)) xs
      else drop (nat start) xs)"

text \<open>
  \<^verbatim>\<open>Math.ceil((options.overlapChars / currentSize) * currentLines.length)\<close>, in
  exact arithmetic. The source rounds the quotient and the product to doubles before
  \<^verbatim>\<open>Math.ceil\<close>, which can give one line more: \<^verbatim>\<open>(14 / 50) * 25\<close> is
  7.000000000000001 in doubles, with ceiling 8, where the exact product is 7 (lemma
  \<open>overlap_product_rounds_up\<close>). What is proved about \<open>chunkText\<close> for all inputs
  holds whatever the number of overlap lines is.
\<close>

definition overlapLineCountOf :: "int \<Rightarrow> int \<Rightarrow> nat \<Rightarrow> int" where
  "overlapLineCountOf overlap sz n = \<lceil>(real_of_int overlap / real_of_int sz) * real n\<rceil>"

text \<open>One iteration of the loop, at index \<open>i\<close> with line \<open>line\<close>.\<close>

definition chunkStep :: "ChunkOptions \<Rightarrow> nat \<Rightarrow> string \<Rightarrow> chunker \<Rightarrow> chunker" where
  "chunkStep options i line st =
     (let currentLines1 = currentLines st @ [line];
          currentSize1 = currentSize st + int (length line) + 1
      in if currentSize1 \<ge> maxChars options then
           let chunkTxt = join [CHR 0x0A] currentLines1;
               chunk = \<lparr>chunk_text = chunkTxt, startLine = startLineVar st, endLine = int i,
                        charStart = charStartVar st,
                        charEnd = charStartVar st + int (length chunkTxt)\<rparr>;
               overlapLineCount =
                 overlapLineCountOf (overlapChars options) currentSize1 (length currentLines1);
               overlapLines = sliceFrom (- overlapLineCount) currentLines1;
               overlapText = join [CHR 0x0A] overlapLines
           in \<lparr>chunks = chunks st @ [chunk],
               currentLines = overlapLines,
               currentSize = int (length overlapText),
               startLineVar = int i - overlapLineCount + 1,
               charStartVar = charStartVar st + int (length chunkTxt) - int (length overlapText)\<rparr>
         else st\<lparr>currentLines := currentLines1, currentSize := currentSize1\<rparr>)"

text \<open>The loop over the lines, from index \<open>i\<close> on.\<close>

fun chunkLoop :: "ChunkOptions \<Rightarrow> nat \<Rightarrow> string list \<Rightarrow> chunker \<Rightarrow> chunker" where
  "chunkLoop options i [] st = st"
| "chunkLoop options i (line # rest) st = chunkLoop options (Suc i) rest (chunkStep options i line st)"

text \<open>
  \<^verbatim>\<open>chunkText(text, options = DEFAULT_CHUNK_OPTIONS)\<close>, with the options given. After
  the loop, a buffer that is not empty becomes the final chunk.
\<close>

definition chunkText :: "string \<Rightarrow> ChunkOptions \<Rightarrow> TextChunk list" where
  "chunkText txt options =
     (let lines = splitLines txt;
          st = chunkLoop options 0 lines
                 \<lparr>chunks = [], currentLines = [], currentSize = 0, startLineVar = 0,
                  charStartVar = 0\<rparr>
      in if length (currentLines st) > 0 then
           let chunkTxt = join [CHR 0x0A] (currentLines st)
           in chunks st @
              [\<lparr>chunk_text = chunkTxt, startLine = startLineVar st,
                endLine = int (length lines) - 1, charStart = charStartVar st,
                charEnd = charStartVar st + int (length chunkTxt)\<rparr>]
         else chunks st)"

section \<open>IEEE 754 binary64 arithmetic\<close>

text \<open>
  A JavaScript number is an IEEE 754 binary64 value: a finite double, given here by
  the rational number it denotes, one of the two infinities, or NaN. The sign of zero
  is not represented: \<^verbatim>\<open>-0 === 0\<close> holds, and the only division modelled below divides
  by a product of two square roots, which is never \<^verbatim>\<open>-0\<close>. Each of \<^verbatim>\<open>*\<close>, \<^verbatim>\<open>+\<close>, \<^verbatim>\<open>/\<close> and
  \<^verbatim>\<open>Math.sqrt\<close> yields the exact result rounded to the nearest double, ties to the even
  significand.
\<close>

datatype double = Finite rat | PosInf | NegInf | NaN

text \<open>The number of binary digits of a positive integer.\<close>

function bitLength :: "int \<Rightarrow> int" where
  "bitLength n = (if n \<le> 0 then 0 else 1 + bitLength (n div 2))"
  by pat_completeness auto

termination
  by (relation "measure nat") auto

declare bitLength.simps [simp del]

text \<open>
  The binary exponent of a positive rational \<open>x\<close>, that is the integer \<open>e\<close> with
  \<open>2 powi e \<le> x < 2 powi (e + 1)\<close> (lemma \<open>floorLog2_bounds\<close>).
\<close>

definition floorLog2 :: "rat \<Rightarrow> int" where
  "floorLog2 x =
     (if x \<ge> 1 then bitLength \<lfloor>x\<rfloor> - 1 else - bitLength (\<lceil>1 / x\<rceil> - 1))"

text \<open>The nearest integer, the even one of the two when \<open>y\<close> lies half-way.\<close>

definition roundHalfEven :: "rat \<Rightarrow> int" where
  "roundHalfEven y =
     (let n = \<lfloor>y\<rfloor>; r = y - of_int n
      in if r < 1 / 2 then n else if r > 1 / 2 then n + 1 else if even n then n else n + 1)"

text \<open>
  Rounding an exact result to binary64. Around \<open>x\<close> the doubles are the multiples of
  \<open>2 powi (e - 52)\<close>, where \<open>e\<close> is the binary exponent of \<open>x\<close>, or -1022 if that is
  larger: below \<open>2 powi (- 1022)\<close> the doubles are the multiples of \<open>2 powi (- 1074)\<close>, so
  a result of magnitude at most \<open>2 powi (- 1075)\<close> underflows to zero. A rounded magnitude
  of \<open>2 powi 1024\<close> or more overflows to an infinity.
\<close>

definition fl :: "rat \<Rightarrow> double" where
  "fl x =
     (if x = 0 then Finite 0
      else
        let e = max (floorLog2 \<bar>x\<bar>) (- 1022);
            ulp = 2 powi (e - 52);
            y = of_int (roundHalfEven (x / ulp)) * ulp
        in if \<bar>y\<bar> \<ge> 2 powi 1024 then (if x > 0 then PosInf else NegInf) else Finite y)"

text \<open>\<^verbatim>\<open>x * y\<close>. Infinity times zero is NaN.\<close>

fun dmul :: "double \<Rightarrow> double \<Rightarrow> double" where
  "dmul (Finite x) (Finite y) = fl (x * y)"
| "dmul NaN _ = NaN"
| "dmul _ NaN = NaN"
| "dmul (Finite x) PosInf = (if x = 0 then NaN else if x > 0 then PosInf else NegInf)"
| "dmul (Finite x) NegInf = (if x = 0 then NaN else if x > 0 then NegInf else PosInf)"
| "dmul PosInf (Finite y) = (if y = 0 then NaN else if y > 0 then PosInf else NegInf)"
| "dmul NegInf (Finite y) = (if y = 0 then NaN else if y > 0 then NegInf else PosInf)"
| "dmul PosInf PosInf = PosInf"
| "dmul PosInf NegInf = NegInf"
| "dmul NegInf PosInf = NegInf"
| "dmul NegInf NegInf = PosInf"

text \<open>\<^verbatim>\<open>x + y\<close>. The sum of the two opposite infinities is NaN.\<close>

fun dadd :: "double \<Rightarrow> double \<Rightarrow> double" where
  "dadd (Finite x) (Finite y) = fl (x + y)"
| "dadd NaN _ = NaN"
| "dadd _ NaN = NaN"
| "dadd PosInf NegInf = NaN"
| "dadd NegInf PosInf = NaN"
| "dadd PosInf _ = PosInf"
| "dadd NegInf _ = NegInf"
| "dadd (Finite x) PosInf = PosInf"
| "dadd (Finite x) NegInf = NegInf"

text \<open>
  \<^verbatim>\<open>x / y\<close>. Zero by zero and infinity by infinity are NaN; a non-zero number by zero
  is an infinity; a finite number by an infinity is zero.
\<close>

fun ddiv :: "double \<Rightarrow> double \<Rightarrow> double" where
  "ddiv (Finite x) (Finite y) =
     (if y = 0 then (if x = 0 then NaN else if x > 0 then PosInf else NegInf)
      else fl (x / y))"
| "ddiv NaN _ = NaN"
| "ddiv _ NaN = NaN"
| "ddiv (Finite x) PosInf = Finite 0"
| "ddiv (Finite x) NegInf = Finite 0"
| "ddiv PosInf (Finite y) = (if y < 0 then NegInf else PosInf)"
| "ddiv NegInf (Finite y) = (if y < 0 then PosInf else NegInf)"
| "ddiv PosInf PosInf = NaN"
| "ddiv PosInf NegInf = NaN"
| "ddiv NegInf PosInf = NaN"
| "ddiv NegInf NegInf = NaN"

text \<open>The integer square root: the largest \<open>r\<close> with \<open>r * r \<le> n\<close> (lemma \<open>isqrt_bounds\<close>).\<close>

function isqrt :: "int \<Rightarrow> int" where
  "isqrt n =
     (if n < 1 then 0
      else let r = 2 * isqrt (n div 4) in if (r + 1) * (r + 1) \<le> n then r + 1 else r)"
  by pat_completeness auto

termination
  by (relation "measure nat") auto

declare isqrt.simps [simp del]

text \<open>
  \<^verbatim>\<open>Math.sqrt(x)\<close>. For \<open>x > 0\<close> the root lies in the binade of exponent
  \<open>e = floorLog2 x div 2\<close>, where the doubles are the multiples of \<open>ulp = 2 powi (e - 52)\<close>.
  With \<open>t = x / ulp\<^sup>2\<close>, the root is \<open>sqrt t\<close> multiples of \<open>ulp\<close>; \<open>n\<close> is the integer part
  of \<open>sqrt t\<close>, and \<open>sqrt t\<close> is compared with \<open>n + 1 / 2\<close> by comparing the squares. The
  square root of a negative number is NaN.
\<close>

fun dsqrt :: "double \<Rightarrow> double" where
  "dsqrt (Finite x) =
     (if x < 0 then NaN
      else if x = 0 then Finite 0
      else
        let e = floorLog2 x div 2;
            ulp = 2 powi (e - 52);
            t = x / (ulp * ulp);
            n = isqrt \<lfloor>t\<rfloor>;
            half = (of_int n + 1 / 2) * (of_int n + 1 / 2);
            m = (if t < half then n else if t > half then n + 1
                 else if even n then n else n + 1)
        in Finite (of_int m * ulp))"
| "dsqrt PosInf = PosInf"
| "dsqrt NegInf = NaN"
| "dsqrt NaN = NaN"

section \<open>Vector utilities (src/utils/vector.ts)\<close>

text \<open>The loop of \<^verbatim>\<open>cosineSimilarity\<close> over the indices of two arrays of one length.\<close>

fun cosineLoop :: "real list \<Rightarrow> real list \<Rightarrow> real \<times> real \<times> real \<Rightarrow> real \<times> real \<times> real" where
  "cosineLoop (x # xs) (y # ys) (dotProduct, magnitudeA, magnitudeB) =
     cosineLoop xs ys (dotProduct + x * y, magnitudeA + x * x, magnitudeB + y * y)"
| "cosineLoop _ _ acc = acc"

text \<open>
  \<^verbatim>\<open>cosineSimilarity\<close> read over exact reals: it throws when the lengths differ;
  \<^verbatim>\<open>+\<close>, \<^verbatim>\<open>*\<close> and \<^verbatim>\<open>/\<close> are exact and \<^verbatim>\<open>Math.sqrt\<close> is the real square root. This is
  the similarity that the ranking functions below (\<open>findTopSimilar\<close>, retrieval)
  compare and sort. It is not the value the double computation returns when a
  product, sum, root or quotient is rounded, overflows or underflows: that value is
  \<open>cosineSimilarity_double\<close>.
\<close>

definition cosineSimilarity :: "real list \<Rightarrow> real list \<Rightarrow> real completion" where
  "cosineSimilarity a b =
     (if length a \<noteq> length b then Throws (DimensionMismatch (length a) (length b))
      else
        let (dotProduct, magnitudeA, magnitudeB) = cosineLoop a b (0, 0, 0);
            magnitudeA = sqrt magnitudeA;
            magnitudeB = sqrt magnitudeB
        in if magnitudeA = 0 \<or> magnitudeB = 0 then Returns 0
           else Returns (dotProduct / (magnitudeA * magnitudeB)))"

text \<open>
  \<^verbatim>\<open>cosineSimilarity\<close> as it runs, on doubles: the same loop and the same tests, with
  every \<^verbatim>\<open>*\<close>, \<^verbatim>\<open>+=\<close>, \<^verbatim>\<open>Math.sqrt\<close> and \<^verbatim>\<open>/\<close> rounded. \<^verbatim>\<open>magnitudeA === 0\<close> is false
  for NaN and for the infinities.
\<close>

fun cosineLoop_double ::
  "double list \<Rightarrow> double list \<Rightarrow> double \<times> double \<times> double \<Rightarrow> double \<times> double \<times> double" where
  "cosineLoop_double (x # xs) (y # ys) (dotProduct, magnitudeA, magnitudeB) =
     cosineLoop_double xs ys
       (dadd dotProduct (dmul x y), dadd magnitudeA (dmul x x), dadd magnitudeB (dmul y y))"
| "cosineLoop_double _ _ acc = acc"

definition cosineSimilarity_double :: "double list \<Rightarrow> double list \<Rightarrow> double completion" where
  "cosineSimilarity_double a b =
     (if length a \<noteq> length b then Throws (DimensionMismatch (length a) (length b))
      else
        let (dotProduct, magnitudeA, magnitudeB) =
              cosineLoop_double a b (Finite 0, Finite 0, Finite 0);
            magnitudeA = dsqrt magnitudeA;
            magnitudeB = dsqrt magnitudeB
        in if magnitudeA = Finite 0 \<or> magnitudeB = Finite 0 then Returns (Finite 0)
           else Returns (ddiv dotProduct (dmul magnitudeA magnitudeB)))"

record 'd vector_item =
  item_id :: string
  item_vector :: "real list"
  item_data :: 'd

record 'd similarity_result =
  result_id :: string
  similarity :: real
  result_data :: 'd

text \<open>
  \<^verbatim>\<open>vectors.map(...)\<close> in \<^verbatim>\<open>findTopSimilar\<close>: the candidates are scored from left to
  right and the first exception ends the map. The first component counts the
  invocations of \<open>cosineSimilarity\<close>.
\<close>

fun similarities :: "real list \<Rightarrow> 'd vector_item list \<Rightarrow> nat \<times> 'd similarity_result list completion" where
  "similarities query [] = (0, Returns [])"
| "similarities query (item # rest) =
     (case cosineSimilarity query (item_vector item) of
        Throws e \<Rightarrow> (1, Throws e)
      | Returns s \<Rightarrow>
          (case similarities query rest of
             (n, Throws e) \<Rightarrow> (Suc n, Throws e)
           | (n, Returns rs) \<Rightarrow>
               (Suc n, Returns (\<lparr>result_id = item_id item, similarity = s,
                                 result_data = item_data item\<rparr> # rs))))"

text \<open>
  \<^verbatim>\<open>xs.sort((a, b) => key(b) - key(a))\<close>: the sort of arrays is stable, so the result
  is the arrangement in non-increasing key order that keeps equal keys in input order.
\<close>

definition sortDescending :: "('a \<Rightarrow> real) \<Rightarrow> 'a list \<Rightarrow> 'a list" where
  "sortDescending key xs = sort_key (\<lambda>x. - key x) xs"

text \<open>\<^verbatim>\<open>xs.slice(0, stop)\<close> for an integer \<open>stop\<close>: a negative \<open>stop\<close> counts from the end of the array.\<close>

definition sliceTo :: "int \<Rightarrow> 'a list \<Rightarrow> 'a list" where
  "sliceTo stop xs =
     (if stop < 0 then take (nat (max (int (length xs) + stop) 0)) xs
      else take (nat stop) xs)"

text \<open>
  \<open>findTopSimilar\<close> returns the number of similarity computations it made and
  either the top results or the exception of the first candidate whose vector
  has another length than the query.
\<close>

definition findTopSimilar ::
  "real list \<Rightarrow> 'd vector_item list \<Rightarrow> int \<Rightarrow> nat \<times> 'd similarity_result list completion" where
  "findTopSimilar query vectors topK =
     (case similarities query vectors of
        (n, Throws e) \<Rightarrow> (n, Throws e)
      | (n, Returns sims) \<Rightarrow> (n, Returns (sliceTo topK (sortDescending similarity sims))))"

section \<open>Retrieval (src/core/retrieval.ts)\<close>

datatype MemoryType = Fact | Decision | Preference | Observation

record MemoryMetadata =
  createdAt :: int
  lastAccessed :: int
  accessCount :: int
  relevanceScore :: real
  tags :: "string list"
  source :: string

record Memory =
  memory_id :: string
  memory_type :: MemoryType
  content :: string
  embedding :: "real list"
  metadata :: MemoryMetadata

record SummaryChunk =
  chunk_id :: string
  summaryId :: string
  chunk_content :: string
  chunk_embedding :: "real list"
  chunk_startLine :: int
  chunk_endLine :: int
  chunk_charStart :: int
  chunk_charEnd :: int
  chunk_createdAt :: int

text \<open>The two settings of \<^verbatim>\<open>config.memory\<close> that retrieval reads.\<close>

record Config =
  topK :: int
  relevanceThreshold :: real

record RetrievalOptions =
  memoryTopK :: "int option"
  summaryTopK :: "int option"
  minRelevance :: "real option"

text \<open>
  \<^verbatim>\<open>RetrievedContext\<close>; an entry \<^verbatim>\<open>{memory, similarity}\<close> or \<^verbatim>\<open>{chunk, similarity}\<close> is a pair.
\<close>

record RetrievedContext =
  memories :: "(Memory \<times> real) list"
  summaryChunks :: "(SummaryChunk \<times> real) list"
  query :: string
  queryEmbedding :: "real list"

text \<open>
  What retrieval calls outside this module: \<^verbatim>\<open>getConfig()\<close>, which throws when the
  configuration cannot be loaded, and three calls that return a \<open>Result\<close>. Each is
  called at most once in a retrieval, so its answer is a value.
\<close>

record collaborators =
  getConfig :: "Config completion"
  generateEmbedding :: "string \<Rightarrow> real list Result"
  getAllMemories :: "Memory list Result"
  getAllSummaryChunks :: "SummaryChunk list Result"

text \<open>
  A run of a retrieval function: how it completes, and how many times
  \<open>cosineSimilarity\<close> was invoked against a memory and against a summary chunk.
\<close>

record 'a run =
  outcome :: "'a completion"
  memorySimilarityCalls :: nat
  chunkSimilarityCalls :: nat

record 'd hybrid_result = "'d similarity_result" +
  keywordScore :: real
  hybridScore :: real

text \<open>The function mapped over \<open>memoryResults\<close> in step 4.5.\<close>

definition applyHybridScoring :: "keyword list \<Rightarrow> Memory similarity_result \<Rightarrow> Memory hybrid_result" where
  "applyHybridScoring queryKeywords result =
     (let memory = result_data result;
          kwScore = calculateKeywordScore queryKeywords (content memory);
          hyScore = (if similarity result \<ge> 7 / 10 then similarity result
                     else calculateHybridScore (similarity result) kwScore (Some (8 / 10)))
      in \<lparr>result_id = result_id result, similarity = similarity result,
          result_data = result_data result, keywordScore = kwScore, hybridScore = hyScore\<rparr>)"

text \<open>
  The three settings: \<^verbatim>\<open>options?.memoryTopK ?? config.memory.topK\<close>,
  \<^verbatim>\<open>options?.summaryTopK ?? Math.ceil(memoryTopK / 2)\<close> and
  \<^verbatim>\<open>options?.minRelevance ?? config.memory.relevanceThreshold\<close>.
\<close>

definition memoryTopK_of :: "RetrievalOptions option \<Rightarrow> Config \<Rightarrow> int" where
  "memoryTopK_of options config =
     (case Option.bind options memoryTopK of Some k \<Rightarrow> k | None \<Rightarrow> topK config)"

definition summaryTopK_of :: "RetrievalOptions option \<Rightarrow> Config \<Rightarrow> int" where
  "summaryTopK_of options config =
     (case Option.bind options summaryTopK of
        Some k \<Rightarrow> k
      | None \<Rightarrow> \<lceil>real_of_int (memoryTopK_of options config) / 2\<rceil>)"

definition minRelevance_of :: "RetrievalOptions option \<Rightarrow> Config \<Rightarrow> real" where
  "minRelevance_of options config =
     (case Option.bind options minRelevance of
        Some r \<Rightarrow> r
      | None \<Rightarrow> relevanceThreshold config)"

text \<open>
  Step 4, the value of \<open>memoryResults\<close>, and step 5, the value of \<open>chunkResults\<close>:
  an empty collection is not searched.
\<close>

definition memoryResults_of ::
  "real list \<Rightarrow> Memory list \<Rightarrow> int \<Rightarrow> nat \<times> Memory similarity_result list completion" where
  "memoryResults_of queryEmb allMemories memTopK =
     (if length allMemories > 0
      then findTopSimilar queryEmb
             (map (\<lambda>m. \<lparr>item_id = memory_id m, item_vector = embedding m, item_data = m\<rparr>)
                  allMemories)
             memTopK
      else (0, Returns []))"

definition chunkResults_of ::
  "real list \<Rightarrow> SummaryChunk list \<Rightarrow> int \<Rightarrow> nat \<times> SummaryChunk similarity_result list completion" where
  "chunkResults_of queryEmb allChunks sumTopK =
     (if length allChunks > 0
      then findTopSimilar queryEmb
             (map (\<lambda>c. \<lparr>item_id = chunk_id c, item_vector = chunk_embedding c, item_data = c\<rparr>)
                  allChunks)
             sumTopK
      else (0, Returns []))"

text \<open>
  Steps 4 to 6 of \<^verbatim>\<open>retrieveContext\<close>: the search over the memories, the hybrid
  scoring and re-sorting, the search over the summary chunks, and the filter by
  the relevance threshold.
\<close>

definition searchAndFilter ::
  "string \<Rightarrow> real list \<Rightarrow> keyword list \<Rightarrow> Memory list \<Rightarrow> SummaryChunk list \<Rightarrow>
   int \<Rightarrow> int \<Rightarrow> real \<Rightarrow> RetrievedContext Result run" where
  "searchAndFilter qry queryEmb queryKeywords allMemories allChunks memTopK sumTopK minRel =
     (case memoryResults_of queryEmb allMemories memTopK of
        (memCalls, Throws e) \<Rightarrow>
          \<lparr>outcome = Throws e, memorySimilarityCalls = memCalls, chunkSimilarityCalls = 0\<rparr>
      | (memCalls, Returns memoryResults) \<Rightarrow>
          (let hybridResults =
                 sortDescending hybridScore (map (applyHybridScoring queryKeywords) memoryResults)
           in (case chunkResults_of queryEmb allChunks sumTopK of
                 (chunkCalls, Throws e) \<Rightarrow>
                   \<lparr>outcome = Throws e, memorySimilarityCalls = memCalls,
                    chunkSimilarityCalls = chunkCalls\<rparr>
               | (chunkCalls, Returns chunkResults) \<Rightarrow>
                   (let relevantMemories =
                          map (\<lambda>r. (result_data r, hybridScore r))
                              (filter (\<lambda>r. hybridScore r \<ge> minRel) hybridResults);
                        relevantChunks =
                          map (\<lambda>r. (result_data r, similarity r))
                              (filter (\<lambda>r. similarity r \<ge> minRel) chunkResults)
                    in \<lparr>outcome = Returns (Success \<lparr>memories = relevantMemories,
                                                      summaryChunks = relevantChunks,
                                                      query = qry, queryEmbedding = queryEmb\<rparr>),
                        memorySimilarityCalls = memCalls,
                        chunkSimilarityCalls = chunkCalls\<rparr>))))"

text \<open>
  The body of the \<^verbatim>\<open>try\<close> block of \<^verbatim>\<open>retrieveContext\<close>: the settings, the
  preprocessed query and its embedding, the keywords of the original query, the
  two loads, then steps 4 to 6.
\<close>

definition retrieveContext_try ::
  "collaborators \<Rightarrow> string \<Rightarrow> RetrievalOptions option \<Rightarrow> RetrievedContext Result run" where
  "retrieveContext_try env qry options =
     (case getConfig env of
        Throws e \<Rightarrow> \<lparr>outcome = Throws e, memorySimilarityCalls = 0, chunkSimilarityCalls = 0\<rparr>
      | Returns config \<Rightarrow>
          (let memTopK = memoryTopK_of options config;
               sumTopK = summaryTopK_of options config;
               minRel = minRelevance_of options config;
               focusedQuery = preprocessQuery qry
           in (case generateEmbedding env focusedQuery of
                 Failure e \<Rightarrow>
                   \<lparr>outcome = Returns (Failure e), memorySimilarityCalls = 0,
                    chunkSimilarityCalls = 0\<rparr>
               | Success queryEmb \<Rightarrow>
                   (let queryKeywords = extractKeywords qry
                    in (case getAllMemories env of
                          Failure e \<Rightarrow>
                            \<lparr>outcome = Returns (Failure e), memorySimilarityCalls = 0,
                             chunkSimilarityCalls = 0\<rparr>
                        | Success allMemories \<Rightarrow>
                            (case getAllSummaryChunks env of
                               Failure e \<Rightarrow>
                                 \<lparr>outcome = Returns (Failure e), memorySimilarityCalls = 0,
                                  chunkSimilarityCalls = 0\<rparr>
                             | Success allChunks \<Rightarrow>
                                 searchAndFilter qry queryEmb queryKeywords allMemories allChunks
                                   memTopK sumTopK minRel))))))"

text \<open>\<^verbatim>\<open>retrieveContext\<close>: the \<^verbatim>\<open>catch\<close> clause turns a thrown exception into a failure.\<close>

definition retrieveContext ::
  "collaborators \<Rightarrow> string \<Rightarrow> RetrievalOptions option \<Rightarrow> RetrievedContext Result run" where
  "retrieveContext env qry options =
     (let r = retrieveContext_try env qry options
      in case outcome r of
           Throws e \<Rightarrow> r\<lparr>outcome := Returns (Failure e)\<rparr>
         | Returns _ \<Rightarrow> r)"

text \<open>
  \<^verbatim>\<open>searchMemories(query, topK = 10)\<close>: an omitted \<open>topK\<close> is \<open>None\<close>. The call
  passes \<^verbatim>\<open>summaryTopK: 0\<close> and no \<^verbatim>\<open>minRelevance\<close>.
\<close>

definition searchMemories_try ::
  "collaborators \<Rightarrow> string \<Rightarrow> int option \<Rightarrow> (Memory \<times> real) list Result run" where
  "searchMemories_try env qry topKArg =
     (let k = (case topKArg of None \<Rightarrow> 10 | Some k \<Rightarrow> k);
          r = retrieveContext env qry
                (Some \<lparr>memoryTopK = Some k, summaryTopK = Some 0, minRelevance = None\<rparr>)
      in \<lparr>outcome =
            (case outcome r of
               Throws e \<Rightarrow> Throws e
             | Returns (Failure e) \<Rightarrow> Returns (Failure e)
             | Returns (Success ctx) \<Rightarrow> Returns (Success (memories ctx))),
          memorySimilarityCalls = memorySimilarityCalls r,
          chunkSimilarityCalls = chunkSimilarityCalls r\<rparr>)"

definition searchMemories ::
  "collaborators \<Rightarrow> string \<Rightarrow> int option \<Rightarrow> (Memory \<times> real) list Result run" where
  "searchMemories env qry topKArg =
     (let r = searchMemories_try env qry topKArg
      in case outcome r of
           Throws e \<Rightarrow> r\<lparr>outcome := Returns (Failure e)\<rparr>
         | Returns _ \<Rightarrow> r)"

section \<open>Notions of the specification\<close>

text \<open>
  The dot product and the Euclidean norm, as the specification's formula
  \<open>dot(a, b) / (|a| * |b|)\<close> for the cosine similarity names them.
\<close>

definition dot :: "real list \<Rightarrow> real list \<Rightarrow> real" where
  "dot a b = (\<Sum>(x, y) \<leftarrow> zip a b. x * y)"

definition magnitude :: "real list \<Rightarrow> real" where
  "magnitude a = sqrt (dot a a)"

text \<open>
  The candidates of \<open>findTopSimilar\<close> in input order, each with its similarity to
  the query (for candidates of the query's dimension).
\<close>

definition scored :: "real list \<Rightarrow> 'd vector_item list \<Rightarrow> 'd similarity_result list" where
  "scored q vs =
     map (\<lambda>v. \<lparr>result_id = item_id v,
                similarity = (case cosineSimilarity q (item_vector v) of
                                Returns s \<Rightarrow> s | Throws _ \<Rightarrow> 0),
                result_data = item_data v\<rparr>) vs"

text \<open>
  The two summands of the keyword score, in the specification's words: the
  fraction of the query keywords that are in the document's keyword set, and
  the boost for the full joined query phrase (0.3) or else for some window of
  two consecutive query keywords (0.15) occurring in the lowercased document.
\<close>

definition baseScore :: "keyword list \<Rightarrow> string \<Rightarrow> real" where
  "baseScore queryKeywords documentText =
     real (length (filter (\<lambda>k. k \<in> set (extractKeywords documentText)) queryKeywords))
       / real (length queryKeywords)"

definition phraseBoost :: "keyword list \<Rightarrow> string \<Rightarrow> real" where
  "phraseBoost queryKeywords documentText =
     (if str_includes (toLowerCase documentText) (joinKeywords queryKeywords) then 3 / 10
      else if \<exists>i. Suc i < length queryKeywords \<and>
                  str_includes (toLowerCase documentText)
                    (joinKeywords [queryKeywords ! i, queryKeywords ! Suc i])
           then 15 / 100
      else 0)"

section \<open>Invariants of the chunking loop\<close>

text \<open>
  Every chunk's offsets span its text, consecutive chunks do not leave a gap, and
  the next chunk will not start behind the end of the last one.
\<close>

definition offsets_ok :: "chunker \<Rightarrow> bool" where
  "offsets_ok st \<longleftrightarrow>
     (\<forall>c\<in>set (chunks st). charEnd c - charStart c = int (length (chunk_text c)))
     \<and> successively (\<lambda>a b. charStart b \<le> charEnd a) (chunks st)
     \<and> (chunks st \<noteq> [] \<longrightarrow> charStartVar st \<le> charEnd (last (chunks st)))"

text \<open>
  Every chunk pushed by the loop has reached the threshold, and the running size
  never exceeds the length of the joined buffer by more than one.
\<close>

definition threshold_ok :: "ChunkOptions \<Rightarrow> chunker \<Rightarrow> bool" where
  "threshold_ok opts st \<longleftrightarrow>
     (\<forall>c\<in>set (chunks st). maxChars opts - 1 \<le> int (length (chunk_text c)))
     \<and> currentSize st \<le> (if currentLines st = [] then 0
                           else int (length (join [CHR 0x0A] (currentLines st))) + 1)"

text \<open>
  After the lines \<open>ds\<close>, the buffer is a suffix of \<open>ds\<close> and every chunk is the
  join of consecutive lines of \<open>ds\<close>.
\<close>

definition lines_ok :: "string list \<Rightarrow> chunker \<Rightarrow> bool" where
  "lines_ok ds st \<longleftrightarrow>
     suffix (currentLines st) ds
     \<and> (\<forall>c\<in>set (chunks st). \<exists>ls. ls \<noteq> [] \<and> sublist ls ds \<and> chunk_text c = join [CHR 0x0A] ls)"

section \<open>Sample data\<close>

text \<open>
  Two memories, a summary chunk with a given embedding, and collaborators that
  load a configuration (top-K 10, threshold 0.65), embed every query as the
  vector (1, 0) and return the given memories and chunks.
\<close>

definition sampleMetadata :: MemoryMetadata where
  "sampleMetadata =
     \<lparr>createdAt = 0, lastAccessed = 0, accessCount = 0, relevanceScore = 1, tags = [],
      source = ''conversation''\<rparr>"

definition pythonMemory :: Memory where
  "pythonMemory =
     \<lparr>memory_id = ''m1'', memory_type = Fact, content = ''User is a Python developer'',
      embedding = [1, 0], metadata = sampleMetadata\<rparr>"

definition pizzaMemory :: Memory where
  "pizzaMemory =
     \<lparr>memory_id = ''m2'', memory_type = Preference, content = ''User loves pizza'',
      embedding = [0, 1], metadata = sampleMetadata\<rparr>"

definition sampleChunk :: "real list \<Rightarrow> SummaryChunk" where
  "sampleChunk emb =
     \<lparr>chunk_id = ''c1'', summaryId = ''s1'', chunk_content = ''User profile'',
      chunk_embedding = emb, chunk_startLine = 0, chunk_endLine = 0, chunk_charStart = 0,
      chunk_charEnd = 12, chunk_createdAt = 0\<rparr>"

definition sampleEnv :: "Memory list \<Rightarrow> SummaryChunk list \<Rightarrow> collaborators" where
  "sampleEnv ms cs =
     \<lparr>getConfig = Returns \<lparr>topK = 10, relevanceThreshold = 65 / 100\<rparr>,
      generateEmbedding = (\<lambda>_. Success [1, 0]),
      getAllMemories = Success ms,
      getAllSummaryChunks = Success cs\<rparr>"

text \<open>
  The number literals \<^verbatim>\<open>1e200\<close> and \<^verbatim>\<open>1e-200\<close>: the doubles nearest to the decimal
  values.
\<close>

definition double_1e200 :: double where
  "double_1e200 = fl (10 ^ 200)"

definition double_1e_minus_200 :: double where
  "double_1e_minus_200 = fl (1 / 10 ^ 200)"

section \<open>Cosine similarity\<close>

lemma dot_Nil [simp]: "dot [] b = 0" "dot a [] = 0"
  by (simp_all add: dot_def)

lemma dot_Cons [simp]: "dot (x # xs) (y # ys) = x * y + dot xs ys"
  by (simp add: dot_def)

lemma dot_commute: "dot a b = dot b a"
proof (induction a arbitrary: b)
  case Nil
  then show ?case by simp
next
  case (Cons x xs)
  then show ?case by (cases b) (simp_all add: mult.commute)
qed

lemma dot_self_nonneg: "0 \<le> dot a a"
  by (induction a) simp_all

lemma dot_self_zero_iff: "dot a a = 0 \<longleftrightarrow> (\<forall>x\<in>set a. x = 0)"
proof (induction a)
  case Nil
  then show ?case by simp
next
  case (Cons x xs)
  have "x * x + dot xs xs = 0 \<longleftrightarrow> x * x = 0 \<and> dot xs xs = 0"
    using dot_self_nonneg [of xs] by (simp add: add_nonneg_eq_0_iff)
  with Cons show ?case by simp
qed

lemma cosineLoop_dot:
  "length a = length b \<Longrightarrow>
   cosineLoop a b (d, ma, mb) = (d + dot a b, ma + dot a a, mb + dot b b)"
  by (induction a b arbitrary: d ma mb rule: list_induct2) (simp_all add: add.assoc)

lemma cauchy_schwarz_step:
  fixes d A B x y :: real
  assumes "d\<^sup>2 \<le> A * B" "0 \<le> A" "0 \<le> B"
  shows "(x * y + d)\<^sup>2 \<le> (x * x + A) * (y * y + B)"
proof -
  let ?u = "x * x * B" and ?v = "A * (y * y)"
  have nn: "0 \<le> ?u + ?v"
    using assms by simp
  have "(2 * (x * y) * d)\<^sup>2 = 4 * (x * y)\<^sup>2 * d\<^sup>2"
    by (simp add: power_mult_distrib)
  also have "\<dots> \<le> 4 * (x * y)\<^sup>2 * (A * B)"
    using assms(1) by (intro mult_left_mono) simp_all
  also have "\<dots> = 4 * ?u * ?v"
    by (simp add: power2_eq_square)
  also have "\<dots> \<le> (?u + ?v)\<^sup>2"
  proof -
    have "0 \<le> (?u - ?v)\<^sup>2" by simp
    then show ?thesis by (simp add: power2_eq_square algebra_simps)
  qed
  finally have "2 * (x * y) * d \<le> ?u + ?v"
    using nn by (rule power2_le_imp_le)
  then show ?thesis
    using assms(1) by (simp add: power2_eq_square algebra_simps)
qed

lemma dot_cauchy_schwarz:
  "length a = length b \<Longrightarrow> (dot a b)\<^sup>2 \<le> dot a a * dot b b"
proof (induction a b rule: list_induct2)
  case Nil
  then show ?case by simp
next
  case (Cons x xs y ys)
  then show ?case
    using cauchy_schwarz_step [of "dot xs ys" "dot xs xs" "dot ys ys" x y]
    by (simp add: dot_self_nonneg)
qed

lemma cosine_ratio_bounds:
  assumes "length a = length b" "sqrt (dot a a) \<noteq> 0" "sqrt (dot b b) \<noteq> 0"
  shows "\<bar>dot a b / (sqrt (dot a a) * sqrt (dot b b))\<bar> \<le> 1"
proof -
  have pos: "0 < sqrt (dot a a) * sqrt (dot b b)"
    using assms(2,3) dot_self_nonneg [of a] dot_self_nonneg [of b] by simp
  have "\<bar>dot a b\<bar> = sqrt ((dot a b)\<^sup>2)" by simp
  also have "\<dots> \<le> sqrt (dot a a * dot b b)"
    using dot_cauchy_schwarz [OF assms(1)] by (rule real_sqrt_le_mono)
  also have "\<dots> = sqrt (dot a a) * sqrt (dot b b)"
    by (rule real_sqrt_mult)
  finally show ?thesis using pos by simp
qed

lemma cosineSimilarity_mismatch:
  "length a \<noteq> length b \<Longrightarrow>
   cosineSimilarity a b = Throws (DimensionMismatch (length a) (length b))"
  by (simp add: cosineSimilarity_def)

lemma cosineSimilarity_eq:
  "length a = length b \<Longrightarrow>
   cosineSimilarity a b =
     Returns (if magnitude a = 0 \<or> magnitude b = 0 then 0
              else dot a b / (magnitude a * magnitude b))"
  by (simp add: cosineSimilarity_def cosineLoop_dot magnitude_def)

text \<open>
  With exact arithmetic the value lies between -1 and 1, does not depend on the order
  of the arguments, and is 1 for a vector with a non-zero component compared with
  itself. These are facts about the formula, not about the doubles the code computes
  with: see \<open>cosineSimilarity_double\<close> below.
\<close>

lemma cosineSimilarity_exact_range:
  assumes "length a = length b"
  shows "\<exists>r. cosineSimilarity a b = Returns r \<and> - 1 \<le> r \<and> r \<le> 1"
proof (cases "magnitude a = 0 \<or> magnitude b = 0")
  case True
  then show ?thesis by (simp add: cosineSimilarity_eq [OF assms])
next
  case False
  then have "\<bar>dot a b / (magnitude a * magnitude b)\<bar> \<le> 1"
    using cosine_ratio_bounds [OF assms] by (simp add: magnitude_def)
  then have "- 1 \<le> dot a b / (magnitude a * magnitude b)"
    and "dot a b / (magnitude a * magnitude b) \<le> 1"
    by linarith+
  with False show ?thesis by (simp add: cosineSimilarity_eq [OF assms])
qed

lemma cosineSimilarity_exact_commute:
  "length a = length b \<Longrightarrow> cosineSimilarity a b = cosineSimilarity b a"
  by (simp add: cosineSimilarity_eq dot_commute mult.commute disj_commute)

lemma cosineSimilarity_exact_self:
  assumes "\<exists>x\<in>set a. x \<noteq> 0"
  shows "cosineSimilarity a a = Returns 1"
proof -
  from assms have "dot a a \<noteq> 0" by (simp add: dot_self_zero_iff)
  then have "0 < dot a a" using dot_self_nonneg [of a] by simp
  then show ?thesis by (simp add: cosineSimilarity_eq magnitude_def)
qed

section \<open>Binary64 arithmetic\<close>

subsection \<open>The binary exponent and the integer square root\<close>

lemma bitLength_0: "bitLength 0 = 0"
  by (simp add: bitLength.simps)

lemma bitLength_1: "bitLength 1 = 1"
  by (simp add: bitLength.simps)

lemma bitLength_Bit0: "bitLength (numeral (Num.Bit0 n)) = 1 + bitLength (numeral n)"
  by (subst bitLength.simps) simp

lemma bitLength_Bit1: "bitLength (numeral (Num.Bit1 n)) = 1 + bitLength (numeral n)"
  by (subst bitLength.simps) simp

lemma bitLength_One: "bitLength (numeral Num.One) = 1"
  by (simp add: bitLength.simps)

lemmas bitLength_numeral = bitLength_0 bitLength_1 bitLength_One bitLength_Bit0 bitLength_Bit1

lemma bitLength_pos: "0 < n \<Longrightarrow> 1 \<le> bitLength n"
proof -
  assume n: "0 < n"
  have "0 \<le> bitLength m" for m
    by (induction m rule: bitLength.induct) (subst bitLength.simps, simp)
  then show ?thesis using n by (subst bitLength.simps) (simp add: add_increasing2)
qed

lemma bitLength_bounds:
  "0 < n \<Longrightarrow> 2 ^ nat (bitLength n - 1) \<le> n \<and> n < 2 ^ nat (bitLength n)"
proof (induction n rule: bitLength.induct)
  case (1 n)
  show ?case
  proof (cases "n = 1")
    case True
    have "bitLength 1 = 1" by (simp add: bitLength.simps)
    with True show ?thesis by simp
  next
    case False
    with "1.prems" have pos: "0 < n div 2" by simp
    have bl: "bitLength n = 1 + bitLength (n div 2)"
      using "1.prems" by (subst bitLength.simps) simp
    have ih: "2 ^ nat (bitLength (n div 2) - 1) \<le> n div 2" "n div 2 < 2 ^ nat (bitLength (n div 2))"
      using "1.IH" "1.prems" pos by simp_all
    have k: "1 \<le> bitLength (n div 2)" using pos by (rule bitLength_pos)
    have e: "nat (bitLength (n div 2)) = Suc (nat (bitLength (n div 2) - 1))"
      using k by simp
    have "2 ^ nat (bitLength n - 1) = (2::int) ^ nat (bitLength (n div 2))"
      by (simp add: bl)
    also have "\<dots> = 2 * 2 ^ nat (bitLength (n div 2) - 1)"
      by (subst e) simp
    also have "\<dots> \<le> 2 * (n div 2)" using ih(1) by simp
    also have "\<dots> \<le> n" by simp
    finally have lo: "2 ^ nat (bitLength n - 1) \<le> n" .
    have "n < 2 * (n div 2 + 1)" by simp
    also have "\<dots> \<le> 2 * 2 ^ nat (bitLength (n div 2))" using ih(2) by simp
    also have "\<dots> = 2 ^ nat (bitLength n)"
      using k by (simp add: bl nat_add_distrib)
    finally have hi: "n < 2 ^ nat (bitLength n)" .
    from lo hi show ?thesis by simp
  qed
qed

lemma isqrt_bounds:
  "0 \<le> n \<Longrightarrow> 0 \<le> isqrt n \<and> isqrt n * isqrt n \<le> n \<and> n < (isqrt n + 1) * (isqrt n + 1)"
proof (induction n rule: isqrt.induct)
  case (1 n)
  show ?case
  proof (cases "n < 1")
    case True
    with "1.prems" have "n = 0" by simp
    then show ?thesis by (simp add: isqrt.simps)
  next
    case False
    define s where "s = isqrt (n div 4)"
    have ih: "0 \<le> s" "s * s \<le> n div 4" "n div 4 < (s + 1) * (s + 1)"
      using "1.IH" [OF False] "1.prems" by (simp_all add: s_def)
    have lo: "(2 * s) * (2 * s) \<le> n"
    proof -
      have "(2 * s) * (2 * s) = 4 * (s * s)" by simp
      also have "\<dots> \<le> 4 * (n div 4)" using ih(2) by simp
      also have "\<dots> \<le> n" by simp
      finally show ?thesis .
    qed
    have hi: "n < (2 * s + 2) * (2 * s + 2)"
    proof -
      have "n div 4 + 1 \<le> (s + 1) * (s + 1)" using ih(3) by simp
      then have "4 * (n div 4 + 1) \<le> 4 * ((s + 1) * (s + 1))" by simp
      moreover have "n < 4 * (n div 4 + 1)" by simp
      moreover have "4 * ((s + 1) * (s + 1)) = (2 * s + 2) * (2 * s + 2)" by (simp add: algebra_simps)
      ultimately show ?thesis by linarith
    qed
    have eq: "isqrt n = (if (2 * s + 1) * (2 * s + 1) \<le> n then 2 * s + 1 else 2 * s)"
      using False by (subst isqrt.simps) (simp add: s_def Let_def)
    show ?thesis
    proof (cases "(2 * s + 1) * (2 * s + 1) \<le> n")
      case True
      with eq have "isqrt n = 2 * s + 1" by simp
      with True hi ih(1) show ?thesis by (simp add: algebra_simps)
    next
      case F: False
      with eq have "isqrt n = 2 * s" by simp
      with F lo ih(1) show ?thesis by (simp add: algebra_simps)
    qed
  qed
qed

lemma floorLog2_bounds:
  assumes "0 < x"
  shows "2 powi floorLog2 x \<le> x \<and> x < 2 powi (floorLog2 x + 1)"
proof (cases "1 \<le> x")
  case True
  define n where "n = \<lfloor>x\<rfloor>"
  have n: "0 < n" using True by (simp add: n_def)
  have fl: "floorLog2 x = bitLength n - 1"
    using True by (simp add: floorLog2_def n_def)
  have k: "1 \<le> bitLength n" using n by (rule bitLength_pos)
  have b: "2 ^ nat (bitLength n - 1) \<le> n" "n < 2 ^ nat (bitLength n)"
    using bitLength_bounds [OF n] by simp_all
  have "(2::rat) powi (bitLength n - 1) = of_int (2 ^ nat (bitLength n - 1))"
    using k by (simp add: power_int_def)
  also have "\<dots> \<le> of_int n" using b(1) by (simp only: of_int_le_iff)
  also have "\<dots> \<le> x" by (simp add: n_def)
  finally have lo: "2 powi (bitLength n - 1) \<le> x" .
  have "x < of_int (n + 1)" using floor_correct [of x] by (simp add: n_def)
  also have "\<dots> \<le> of_int (2 ^ nat (bitLength n))"
    using b(2) by (simp only: of_int_le_iff)
  also have "\<dots> = (2::rat) powi (bitLength n - 1 + 1)"
    using k by (simp add: power_int_def)
  finally have hi: "x < 2 powi (bitLength n - 1 + 1)" .
  from lo hi show ?thesis by (simp add: fl)
next
  case False
  define m where "m = \<lceil>1 / x\<rceil>"
  define j where "j = bitLength (m - 1)"
  have inv: "1 < 1 / x" using assms False by simp
  then have m: "0 < m - 1" by (simp add: m_def less_ceiling_iff)
  have fl: "floorLog2 x = - j"
    using False by (simp add: floorLog2_def m_def j_def)
  have k: "1 \<le> j" unfolding j_def using m by (rule bitLength_pos)
  have b: "2 ^ nat (j - 1) \<le> m - 1" "m - 1 < 2 ^ nat j"
    using bitLength_bounds [OF m] by (simp_all add: j_def)
  have p: "(0::rat) < 2 ^ nat j" "(0::rat) < 2 ^ nat (j - 1)" by simp_all
  have "1 / x \<le> of_int m" by (simp add: m_def)
  also have "\<dots> \<le> of_int (2 ^ nat j)"
    using b(2) by (simp only: of_int_le_iff)
  finally have "1 / x \<le> 2 ^ nat j" by simp
  then have "1 \<le> 2 ^ nat j * x" using assms by (simp add: divide_le_eq)
  then have "1 / 2 ^ nat j \<le> x" using p(1) by (simp add: divide_le_eq mult.commute)
  moreover have "(2::rat) powi (- j) = 1 / 2 ^ nat j"
    using k by (simp add: power_int_def inverse_eq_divide power_one_over)
  ultimately have lo: "2 powi (- j) \<le> x" by simp
  have "of_int (2 ^ nat (j - 1)) \<le> (of_int (m - 1) :: rat)"
    using b(1) by (simp only: of_int_le_iff)
  also have "\<dots> < 1 / x" using ceiling_correct [of "1 / x"] by (simp add: m_def)
  finally have "2 ^ nat (j - 1) < 1 / x" by simp
  then have "2 ^ nat (j - 1) * x < 1" using assms by (simp add: less_divide_eq)
  then have "x < 1 / 2 ^ nat (j - 1)" using p(2) by (simp add: less_divide_eq mult.commute)
  moreover have "(2::rat) powi (- j + 1) = 1 / 2 ^ nat (j - 1)"
  proof (cases "j = 1")
    case True
    then show ?thesis by simp
  next
    case F: False
    with k have "- j + 1 < 0" "nat (- (- j + 1)) = nat (j - 1)" by simp_all
    then show ?thesis by (simp add: power_int_def inverse_eq_divide power_one_over)
  qed
  ultimately have hi: "x < 2 powi (- j + 1)" by simp
  from lo hi show ?thesis by (simp add: fl)
qed

lemma floorLog2_unique:
  assumes "0 < x" "2 powi e \<le> x" "x < 2 powi (e + 1)"
  shows "floorLog2 x = e"
proof -
  let ?f = "floorLog2 x"
  have b: "2 powi ?f \<le> x" "x < 2 powi (?f + 1)"
    using floorLog2_bounds [OF assms(1)] by simp_all
  have "\<not> ?f < e"
  proof
    assume "?f < e"
    then have "(2::rat) powi (?f + 1) \<le> 2 powi e"
      by (intro power_int_increasing) simp_all
    with b(2) assms(2) show False by simp
  qed
  moreover have "\<not> e < ?f"
  proof
    assume "e < ?f"
    then have "(2::rat) powi (e + 1) \<le> 2 powi ?f"
      by (intro power_int_increasing) simp_all
    with b(1) assms(3) show False by simp
  qed
  ultimately show ?thesis by simp
qed

lemma floorLog2_quotient:
  fixes a b :: int
  assumes "0 < a" "0 < b"
  shows "floorLog2 (of_int a / of_int b) =
           (if 2 powi (bitLength a - bitLength b) \<le> (of_int a / of_int b :: rat)
            then bitLength a - bitLength b else bitLength a - bitLength b - 1)"
proof -
  define k where "k = bitLength a - bitLength b"
  let ?x = "of_int a / of_int b :: rat"
  have x: "0 < ?x" using assms by simp
  have ka: "1 \<le> bitLength a" and kb: "1 \<le> bitLength b"
    using assms by (simp_all add: bitLength_pos)
  have ba: "2 ^ nat (bitLength a - 1) \<le> a" "a < 2 ^ nat (bitLength a)"
    using bitLength_bounds [OF assms(1)] by simp_all
  have bb: "2 ^ nat (bitLength b - 1) \<le> b" "b < 2 ^ nat (bitLength b)"
    using bitLength_bounds [OF assms(2)] by simp_all
  have pa: "(2::rat) powi (bitLength a - 1) \<le> of_int a" "of_int a < (2::rat) powi bitLength a"
  proof -
    have "(2::rat) powi (bitLength a - 1) = of_int (2 ^ nat (bitLength a - 1))"
      using ka by (simp add: power_int_def)
    also have "\<dots> \<le> of_int a" using ba(1) by (simp only: of_int_le_iff)
    finally show "(2::rat) powi (bitLength a - 1) \<le> of_int a" .
    have "(of_int a :: rat) < of_int (2 ^ nat (bitLength a))"
      using ba(2) by (simp only: of_int_less_iff)
    also have "\<dots> = (2::rat) powi bitLength a"
      using ka by (simp add: power_int_def)
    finally show "of_int a < (2::rat) powi bitLength a" .
  qed
  have pb: "(2::rat) powi (bitLength b - 1) \<le> of_int b" "of_int b < (2::rat) powi bitLength b"
  proof -
    have "(2::rat) powi (bitLength b - 1) = of_int (2 ^ nat (bitLength b - 1))"
      using kb by (simp add: power_int_def)
    also have "\<dots> \<le> of_int b" using bb(1) by (simp only: of_int_le_iff)
    finally show "(2::rat) powi (bitLength b - 1) \<le> of_int b" .
    have "(of_int b :: rat) < of_int (2 ^ nat (bitLength b))"
      using bb(2) by (simp only: of_int_less_iff)
    also have "\<dots> = (2::rat) powi bitLength b"
      using kb by (simp add: power_int_def)
    finally show "of_int b < (2::rat) powi bitLength b" .
  qed
  have bpos: "(0::rat) < of_int b" using assms by simp
  have p2: "(0::rat) < 2 powi n" for n by simp
  have lo: "2 powi (k - 1) \<le> ?x"
  proof -
    have "2 powi (k - 1) * of_int b \<le> (2::rat) powi (k - 1) * 2 powi bitLength b"
      using pb(2) by (intro mult_left_mono) simp_all
    also have "\<dots> = 2 powi (bitLength a - 1)"
      by (simp add: k_def power_int_add [symmetric])
    also have "\<dots> \<le> of_int a" by (rule pa(1))
    finally show ?thesis using bpos by (simp add: le_divide_eq)
  qed
  have hi: "?x < 2 powi (k + 1)"
  proof -
    have "of_int a < (2::rat) powi bitLength a" by (rule pa(2))
    also have "\<dots> = 2 powi (k + 1) * 2 powi (bitLength b - 1)"
      by (simp add: k_def power_int_add [symmetric])
    also have "\<dots> \<le> 2 powi (k + 1) * of_int b"
      using pb(1) by (intro mult_left_mono) simp_all
    finally show ?thesis using bpos by (simp add: divide_less_eq)
  qed
  have "floorLog2 ?x = (if 2 powi k \<le> ?x then k else k - 1)"
  proof (cases "2 powi k \<le> ?x")
    case True
    then show ?thesis using floorLog2_unique [OF x True hi] by simp
  next
    case False
    then have "?x < 2 powi (k - 1 + 1)" by simp
    from floorLog2_unique [OF x lo this] False show ?thesis by simp
  qed
  then show ?thesis by (simp add: k_def)
qed

lemma floorLog2_numeral_div:
  "floorLog2 (numeral a / numeral b) =
     (let k = bitLength (numeral a) - bitLength (numeral b)
      in if 2 powi k \<le> (numeral a / numeral b :: rat) then k else k - 1)"
  using floorLog2_quotient [of "numeral a" "numeral b"] by (simp add: Let_def)

lemma floorLog2_one_div:
  "floorLog2 (1 / numeral b) =
     (let k = 1 - bitLength (numeral b)
      in if 2 powi k \<le> (1 / numeral b :: rat) then k else k - 1)"
  using floorLog2_quotient [of 1 "numeral b"] by (simp add: Let_def bitLength_1)


subsection \<open>Evaluation on numerals\<close>

lemma floorLog2_one: "floorLog2 1 = 0"
  by (simp add: floorLog2_def bitLength_1)

lemma floorLog2_numeral: "floorLog2 (numeral a) = bitLength (numeral a) - 1"
  by (simp add: floorLog2_def)

lemma floor_rat_numeral_div:
  "\<lfloor>numeral a / numeral b :: rat\<rfloor> = numeral a div numeral b"
  using floor_divide_of_int_eq [of "numeral a" "numeral b", where ?'a = rat] by simp

lemma floor_rat_one_div:
  "\<lfloor>1 / numeral b :: rat\<rfloor> = 1 div numeral b"
  using floor_divide_of_int_eq [of 1 "numeral b", where ?'a = rat] by simp

lemma ceiling_rat_numeral_div:
  "\<lceil>numeral a / numeral b :: rat\<rceil> = - (- numeral a div numeral b)"
  using ceiling_divide_eq_div [of "numeral a" "numeral b", where ?'a = rat] by simp

lemmas double_eval =
  fl_def floorLog2_numeral_div floorLog2_one_div floorLog2_numeral floorLog2_one roundHalfEven_def
  bitLength_numeral isqrt.simps floor_rat_numeral_div floor_rat_one_div
  ceiling_rat_numeral_div Let_def

text \<open>
  Known doubles: 0.1 and the square root of 2; the least number that overflows; the
  half-way points below and above the least positive double.
\<close>

lemma fl_one_tenth: "fl (1 / 10) = Finite (3602879701896397 / 2 ^ 55)"
  by (simp add: double_eval)

lemma dsqrt_two: "dsqrt (Finite 2) = Finite (6369051672525773 / 2 ^ 52)"
  by (simp add: double_eval)

lemma fl_overflow_threshold: "fl (2 ^ 1024 - 2 ^ 970) = PosInf"
  by (simp add: double_eval)

lemma fl_underflow_threshold:
  "fl (1 / 2 ^ 1075) = Finite 0"
  "fl (3 / 2 ^ 1075) = Finite (1 / 2 ^ 1073)"
  by (simp_all add: double_eval)

section \<open>Cosine similarity on doubles\<close>

lemma fl_zero [simp]: "fl 0 = Finite 0"
  by (simp add: fl_def)

lemma dmul_commute: "dmul x y = dmul y x"
  by (cases x; cases y) (simp_all add: mult.commute)

lemma cosineLoop_double_swap:
  "length a = length b \<Longrightarrow>
   cosineLoop_double a b (d, ma, mb) = (d', ma', mb') \<Longrightarrow>
   cosineLoop_double b a (d, mb, ma) = (d', mb', ma')"
proof (induction a b arbitrary: d ma mb rule: list_induct2)
  case Nil
  then show ?case by simp
next
  case (Cons x xs y ys)
  then show ?case by (simp add: dmul_commute [of y x])
qed

lemma cosineSimilarity_double_throws_iff:
  "(\<exists>e. cosineSimilarity_double a b = Throws e) \<longleftrightarrow> length a \<noteq> length b"
  by (auto simp add: cosineSimilarity_double_def Let_def split: prod.splits)

lemma cosineSimilarity_double_mismatch:
  "length a \<noteq> length b \<Longrightarrow>
   cosineSimilarity_double a b = Throws (DimensionMismatch (length a) (length b))"
  by (simp add: cosineSimilarity_double_def)

text \<open>The rounded computation does not depend on the order of the arguments.\<close>

lemma cosineSimilarity_double_commute:
  assumes "length a = length b"
  shows "cosineSimilarity_double a b = cosineSimilarity_double b a"
proof -
  obtain d ma mb where l: "cosineLoop_double a b (Finite 0, Finite 0, Finite 0) = (d, ma, mb)"
    by (cases "cosineLoop_double a b (Finite 0, Finite 0, Finite 0)")
  from cosineLoop_double_swap [OF assms l]
  have r: "cosineLoop_double b a (Finite 0, Finite 0, Finite 0) = (d, mb, ma)" .
  show ?thesis
    using assms
    by (simp add: cosineSimilarity_double_def l r Let_def disj_commute
        dmul_commute [of "dsqrt ma" "dsqrt mb"])
qed

text \<open>A vector of zeros has magnitude zero, and the result is 0 whatever the other vector is.\<close>

lemma cosineLoop_double_zeros:
  "length a = length b \<Longrightarrow> \<forall>x\<in>set a. x = Finite 0 \<Longrightarrow>
   \<exists>d mb. cosineLoop_double a b (d0, Finite 0, mb0) = (d, Finite 0, mb)"
proof (induction a b arbitrary: d0 mb0 rule: list_induct2)
  case Nil
  then show ?case by simp
next
  case (Cons x xs y ys)
  then show ?case by simp
qed

lemma cosineSimilarity_double_zero_vector:
  assumes "length a = length b" "\<forall>x\<in>set a. x = Finite 0"
  shows "cosineSimilarity_double a b = Returns (Finite 0)"
proof -
  obtain d mb where "cosineLoop_double a b (Finite 0, Finite 0, Finite 0) = (d, Finite 0, mb)"
    using cosineLoop_double_zeros [OF assms] by blast
  then show ?thesis using assms(1) by (simp add: cosineSimilarity_double_def)
qed

text \<open>
  The vector (2, 3) with itself: the sums are exact, 13 each; the square root of 13
  is rounded down, its square rounds to a double below 13, and the quotient rounds
  to the double after 1.
\<close>

lemma cosineSimilarity_double_2_3:
  "cosineSimilarity_double [Finite 2, Finite 3] [Finite 2, Finite 3] =
     Returns (Finite (1 + 1 / 2 ^ 52))"
proof -
  define s :: rat where "s = 8118979690322419 / 2 ^ 51"
  define p :: rat where "p = 7318349394477055 / 2 ^ 49"
  have loop: "cosineLoop_double [Finite 2, Finite 3] [Finite 2, Finite 3]
                (Finite 0, Finite 0, Finite 0) = (Finite 13, Finite 13, Finite 13)"
    by (simp add: double_eval)
  have root: "dsqrt (Finite 13) = Finite s"
    by (simp add: s_def double_eval)
  have nz: "s \<noteq> 0"
    by (simp add: s_def)
  have prod: "dmul (Finite s) (Finite s) = Finite p"
    by (simp add: s_def p_def double_eval)
  have quot: "ddiv (Finite 13) (Finite p) = Finite (1 + 1 / 2 ^ 52)"
    by (simp add: p_def double_eval)
  show ?thesis
    by (simp add: cosineSimilarity_double_def loop root nz prod quot
        del: cosineLoop_double.simps dmul.simps ddiv.simps dsqrt.simps)
qed

text \<open>
  The literal \<^verbatim>\<open>1e200\<close>: its square is above the largest double, so the three sums
  are infinite, and infinity divided by infinity is NaN.
\<close>

lemma double_1e200_eq: "double_1e200 = Finite (2941796710330669 * 2 ^ 613)"
  by (simp add: double_1e200_def double_eval)

lemma double_1e200_square: "dmul double_1e200 double_1e200 = PosInf"
  by (simp add: double_1e200_eq double_eval)

lemma cosineSimilarity_double_1e200:
  "cosineSimilarity_double [double_1e200, double_1e200] [double_1e200, double_1e200] =
     Returns NaN"
  by (simp add: cosineSimilarity_double_def double_1e200_square)

text \<open>
  The literal \<^verbatim>\<open>1e-200\<close>: it is not zero, but its square is below half the smallest
  positive double and rounds to zero, so both magnitudes are 0.
\<close>

lemma double_1e_minus_200_eq: "double_1e_minus_200 = Finite (1723641332219371 / 2 ^ 715)"
  by (simp add: double_1e_minus_200_def double_eval)

lemma double_1e_minus_200_nonzero: "double_1e_minus_200 \<noteq> Finite 0"
  by (simp add: double_1e_minus_200_eq)

lemma double_1e_minus_200_square: "dmul double_1e_minus_200 double_1e_minus_200 = Finite 0"
  by (simp add: double_1e_minus_200_eq double_eval)

lemma cosineSimilarity_double_1e_minus_200:
  "cosineSimilarity_double [double_1e_minus_200] [double_1e_minus_200] = Returns (Finite 0)"
  by (simp add: cosineSimilarity_double_def double_1e_minus_200_square)

text \<open>
  C5: \<^verbatim>\<open>cosineSimilarity\<close> does not keep its contract on doubles. The comment above the
  function says that it returns a value between -1 and 1, and 1 for identical
  vectors. Computed in binary64, the vector (2, 3) compared with itself gives
  \<open>1 + 1 / 2 ^ 52\<close> (1.0000000000000002), which is above 1; the vector (1e200, 1e200)
  compared with itself gives NaN; and the vector (1e-200), which is not zero,
  compared with itself gives 0. (The function does throw exactly when the lengths
  differ, it is symmetric, and it returns 0 for a vector of zeros: lemmas
  \<open>cosineSimilarity_double_throws_iff\<close>, \<open>cosineSimilarity_double_commute\<close> and
  \<open>cosineSimilarity_double_zero_vector\<close>.)
\<close>

theorem cosineSimilarity_double_breaks_contract:
  "cosineSimilarity_double [Finite 2, Finite 3] [Finite 2, Finite 3] =
     Returns (Finite (1 + 1 / 2 ^ 52))
   \<and> 1 < (1 + 1 / 2 ^ 52 :: rat)
   \<and> cosineSimilarity_double [double_1e200, double_1e200] [double_1e200, double_1e200] =
     Returns NaN
   \<and> double_1e_minus_200 \<noteq> Finite 0
   \<and> cosineSimilarity_double [double_1e_minus_200] [double_1e_minus_200] =
     Returns (Finite 0)"
  by (simp add: cosineSimilarity_double_2_3 cosineSimilarity_double_1e200
      cosineSimilarity_double_1e_minus_200 double_1e_minus_200_nonzero)

section \<open>Query preprocessing\<close>

lemma preprocessQuery_what_is: "preprocessQuery ''what is my name?'' = ''my name''"
  by code_simp

lemma preprocessQuery_hi: "preprocessQuery ''hi'' = ''hi''"
  by code_simp

lemma preprocessQuery_too_short:
  "length (trim (rewriteQuery q)) < 3 \<Longrightarrow> preprocessQuery q = q"
  by (simp add: preprocessQuery_def Let_def)

lemma strip_do_you:
  "fold (\<lambda>pattern processed. replaceRegex True pattern [] processed) patterns
     ''do you have my name?'' = ''have my name?''"
  by code_simp

text \<open>
  C2: the preprocessor maps \<open>do you have my name?\<close> to \<open>my name\<close>. On the code
  it does not: the second prefix pattern removes the leading \<open>do you\<close> first, so
  the question pattern that starts with \<open>do you\<close> no longer matches, and the
  result is \<open>have my name?\<close>. (The claim's other parts hold: \<open>what is my name?\<close>
  gives \<open>my name\<close>, and a rewrite shorter than three characters is discarded.)
\<close>

theorem preprocessQuery_do_you_have:
  "preprocessQuery ''do you have my name?'' = ''have my name?''
   \<and> preprocessQuery ''do you have my name?'' \<noteq> ''my name''"
  by code_simp

section \<open>Top-K selection\<close>

lemma similarities_Returns:
  "\<forall>v\<in>set vs. length (item_vector v) = length q \<Longrightarrow>
   similarities q vs = (length vs, Returns (scored q vs))"
proof (induction vs)
  case Nil
  then show ?case by (simp add: scored_def)
next
  case (Cons v vs)
  then have "length q = length (item_vector v)" by simp
  then obtain s where "cosineSimilarity q (item_vector v) = Returns s"
    using cosineSimilarity_eq by blast
  with Cons show ?case by (simp add: scored_def)
qed

lemma similarities_Throws:
  "\<exists>v\<in>set vs. length (item_vector v) \<noteq> length q \<Longrightarrow>
   \<exists>e. snd (similarities q vs) = Throws e"
proof (induction vs)
  case Nil
  then show ?case by simp
next
  case (Cons v vs)
  show ?case
  proof (cases "cosineSimilarity q (item_vector v)")
    case (Throws e)
    then show ?thesis by simp
  next
    case (Returns s)
    then have "length (item_vector v) = length q"
      using cosineSimilarity_mismatch [of q "item_vector v"] by (cases "length q = length (item_vector v)") simp_all
    with Cons obtain e where "snd (similarities q vs) = Throws e" by auto
    with Returns show ?thesis by (cases "similarities q vs") auto
  qed
qed

lemma findTopSimilar_mismatch:
  "\<exists>v\<in>set vs. length (item_vector v) \<noteq> length q \<Longrightarrow>
   \<exists>e. snd (findTopSimilar q vs k) = Throws e"
  using similarities_Throws [of vs q]
  by (auto simp: findTopSimilar_def split: prod.splits completion.splits)

lemma sorted_sortDescending:
  "sorted_wrt (\<lambda>x y. key x \<ge> key y) (sortDescending key xs)"
proof -
  have "sorted (map (\<lambda>x. - key x) (sortDescending key xs))"
    by (simp add: sortDescending_def)
  then show ?thesis
    by (simp add: sorted_wrt_map)
qed

lemma sortDescending_stable:
  "filter (\<lambda>x. key x = s) (sortDescending key xs) = filter (\<lambda>x. key x = s) xs"
  using sort_key_stable [of "\<lambda>x. - key x" "- s" xs]
  by (simp add: sortDescending_def)

lemma length_sortDescending [simp]: "length (sortDescending key xs) = length xs"
  by (simp add: sortDescending_def)

lemma set_sortDescending [simp]: "set (sortDescending key xs) = set xs"
  by (simp add: sortDescending_def)

lemma sliceTo_nonneg: "0 \<le> k \<Longrightarrow> sliceTo k xs = take (nat k) xs"
  by (simp add: sliceTo_def)

lemma prefix_filter_take: "prefix (filter P (take n xs)) (filter P xs)"
proof -
  have "filter P xs = filter P (take n xs) @ filter P (drop n xs)"
    by (metis append_take_drop_id filter_append)
  then show ?thesis by (simp add: prefix_def)
qed

lemma sorted_wrt_take: "sorted_wrt R xs \<Longrightarrow> sorted_wrt R (take n xs)"
  by (metis append_take_drop_id sorted_wrt_append)

text \<open>
  C6 (as stated): for every query, candidate collection and \<open>k\<close>, \<open>findTopSimilar\<close>
  returns exactly \<open>min k n\<close> results. This fails where a candidate's vector has
  another length than the query (the call throws), and for a negative \<open>k\<close>, which
  \<^verbatim>\<open>slice\<close> counts from the end: three candidates and \<open>k = -1\<close> give two results.
\<close>

theorem findTopSimilar_counterexample:
  "snd (findTopSimilar [1] [\<lparr>item_id = ''a'', item_vector = [1, 2], item_data = ()\<rparr>] 1)
     = Throws (DimensionMismatch 1 2)
   \<and> (\<exists>res. snd (findTopSimilar [1]
                 [\<lparr>item_id = ''a'', item_vector = [1], item_data = ()\<rparr>,
                  \<lparr>item_id = ''b'', item_vector = [1], item_data = ()\<rparr>,
                  \<lparr>item_id = ''c'', item_vector = [1], item_data = ()\<rparr>] (- 1)) = Returns res
         \<and> length res = 2 \<and> int (length res) \<noteq> min (- 1) 3)"
  by (simp add: findTopSimilar_def cosineSimilarity_def sliceTo_def sortDescending_def)

text \<open>
  C6 (amended): if every candidate's vector has the length of the query and \<open>k\<close>
  is not negative, \<open>findTopSimilar\<close> returns exactly \<open>min k n\<close> results (after one
  similarity computation per candidate), sorted non-increasing by similarity;
  the results of one similarity value are the first candidates of that value, in
  their input order.
\<close>

theorem findTopSimilar_top_k:
  assumes "\<forall>v\<in>set vs. length (item_vector v) = length q" and "0 \<le> k"
  shows "\<exists>res. findTopSimilar q vs k = (length vs, Returns res)
           \<and> length res = min (nat k) (length vs)
           \<and> sorted_wrt (\<lambda>x y. similarity x \<ge> similarity y) res
           \<and> (\<forall>s. prefix (filter (\<lambda>r. similarity r = s) res)
                          (filter (\<lambda>r. similarity r = s) (scored q vs)))
           \<and> set res \<subseteq> set (scored q vs)"
proof -
  let ?sorted = "sortDescending similarity (scored q vs)"
  let ?res = "take (nat k) ?sorted"
  have run: "findTopSimilar q vs k = (length vs, Returns ?res)"
    using assms by (simp add: findTopSimilar_def similarities_Returns sliceTo_nonneg)
  have len: "length ?res = min (nat k) (length vs)"
    by (simp add: scored_def)
  have srt: "sorted_wrt (\<lambda>x y. similarity x \<ge> similarity y) ?res"
    by (rule sorted_wrt_take) (rule sorted_sortDescending)
  have stable: "prefix (filter (\<lambda>r. similarity r = s) ?res)
                       (filter (\<lambda>r. similarity r = s) (scored q vs))" for s
    using prefix_filter_take [of "\<lambda>r. similarity r = s" "nat k" ?sorted]
    by (simp add: sortDescending_stable)
  have sub: "set ?res \<subseteq> set (scored q vs)"
    using set_take_subset [of "nat k" ?sorted] by simp
  from run len srt stable sub show ?thesis by blast
qed

theorem findTopSimilar_top_k_witness:
  "(0 :: int) \<le> 2
   \<and> (\<exists>res. findTopSimilar [1, 0]
                [\<lparr>item_id = ''a'', item_vector = [0, 1], item_data = ()\<rparr>,
                 \<lparr>item_id = ''b'', item_vector = [1, 0], item_data = ()\<rparr>,
                 \<lparr>item_id = ''c'', item_vector = [2, 0], item_data = ()\<rparr>] 2
               = (3, Returns res)
          \<and> length res = 2
          \<and> sorted_wrt (\<lambda>x y. similarity x \<ge> similarity y) res)"
  using findTopSimilar_top_k
    [of "[\<lparr>item_id = ''a'', item_vector = [0, 1], item_data = ()\<rparr>,
          \<lparr>item_id = ''b'', item_vector = [1, 0], item_data = ()\<rparr>,
          \<lparr>item_id = ''c'', item_vector = [2, 0], item_data = ()\<rparr>]" "[1, 0]" 2]
  by auto

section \<open>The keyword score\<close>

lemma countMatches_filter:
  "countMatches S ks n = n + length (filter (\<lambda>k. k \<in> S) ks)"
  by (induction ks arbitrary: n) simp_all

lemma window_Cons:
  "(\<exists>i. Suc i < length (k1 # k2 # ks) \<and> P ((k1 # k2 # ks) ! i) ((k1 # k2 # ks) ! Suc i))
   \<longleftrightarrow> P k1 k2 \<or> (\<exists>i. Suc i < length (k2 # ks) \<and> P ((k2 # ks) ! i) ((k2 # ks) ! Suc i))"
  (is "?L \<longleftrightarrow> ?R")
proof
  assume ?L
  then obtain i where i: "Suc i < length (k1 # k2 # ks)"
    "P ((k1 # k2 # ks) ! i) ((k1 # k2 # ks) ! Suc i)" by blast
  show ?R
  proof (cases i)
    case 0
    with i show ?thesis by simp
  next
    case (Suc j)
    with i have "Suc j < length (k2 # ks) \<and> P ((k2 # ks) ! j) ((k2 # ks) ! Suc j)" by simp
    then show ?thesis by blast
  qed
next
  assume ?R
  then show ?L
  proof
    assume "P k1 k2"
    then have "Suc 0 < length (k1 # k2 # ks) \<and> P ((k1 # k2 # ks) ! 0) ((k1 # k2 # ks) ! Suc 0)"
      by simp
    then show ?L by blast
  next
    assume "\<exists>i. Suc i < length (k2 # ks) \<and> P ((k2 # ks) ! i) ((k2 # ks) ! Suc i)"
    then obtain j where "Suc j < length (k2 # ks)" "P ((k2 # ks) ! j) ((k2 # ks) ! Suc j)"
      by blast
    then have "Suc (Suc j) < length (k1 # k2 # ks)
        \<and> P ((k1 # k2 # ks) ! Suc j) ((k1 # k2 # ks) ! Suc (Suc j))" by simp
    then show ?L by blast
  qed
qed

lemma partialPhraseBoost_eq:
  "partialPhraseBoost d ks b =
     (if \<exists>i. Suc i < length ks \<and> str_includes d (joinKeywords [ks ! i, ks ! Suc i])
      then max b (15 / 100) else b)"
proof (induction d ks b rule: partialPhraseBoost.induct)
  case (1 d k1 k2 rest b)
  show ?case
    unfolding partialPhraseBoost.simps(1) "1.IH"
      window_Cons [of k1 k2 rest "\<lambda>x y. str_includes d (joinKeywords [x, y])"]
    by auto
qed simp_all

lemma calculateKeywordScore_eq:
  "queryKeywords \<noteq> [] \<Longrightarrow>
   calculateKeywordScore queryKeywords documentText =
     min 1 (baseScore queryKeywords documentText + phraseBoost queryKeywords documentText)"
  by (auto simp add: calculateKeywordScore_def Let_def countMatches_filter partialPhraseBoost_eq
      baseScore_def phraseBoost_def)

lemma baseScore_all:
  assumes "queryKeywords \<noteq> []" "set queryKeywords \<subseteq> set (extractKeywords documentText)"
  shows "baseScore queryKeywords documentText = 1"
proof -
  have "filter (\<lambda>k. k \<in> set (extractKeywords documentText)) queryKeywords = queryKeywords"
    using assms(2) by (auto simp: filter_id_conv)
  with assms(1) show ?thesis by (simp add: baseScore_def)
qed

lemma baseScore_none:
  assumes "\<forall>k\<in>set queryKeywords. k \<notin> set (extractKeywords documentText)"
  shows "baseScore queryKeywords documentText = 0"
proof -
  have "filter (\<lambda>k. k \<in> set (extractKeywords documentText)) queryKeywords = []"
    using assms by (auto simp: filter_empty_conv)
  then show ?thesis by (simp add: baseScore_def)
qed

lemma phraseBoost_range: "0 \<le> phraseBoost queryKeywords documentText \<and> phraseBoost queryKeywords documentText \<le> 3 / 10"
  by (simp add: phraseBoost_def)

lemma extractKeywords_concatenate: "extractKeywords ''concatenate'' = [Word ''concatenate'']"
  by code_simp

lemma extractKeywords_cat: "extractKeywords ''cat'' = [Word ''cat'']"
  by code_simp

lemma concatenate_includes_cat:
  "str_includes (toLowerCase ''concatenate'') (joinKeywords [Word ''cat''])"
  by code_simp

text \<open>
  C7 (as stated): the score is 0 for no query keywords and otherwise
  \<open>min 1 (baseScore + phraseBoost)\<close>; in particular it is 0 when no query keyword
  matches. The last part fails: the phrase boost looks for the query phrase as a
  substring of the document, not among its keywords. The query \<open>cat\<close> has the one
  keyword \<open>cat\<close>, which is not a keyword of the document \<open>concatenate\<close>, and the
  score is 0.3.
\<close>

theorem calculateKeywordScore_no_match_counterexample:
  "extractKeywords ''cat'' = [Word ''cat'']
   \<and> Word ''cat'' \<notin> set (extractKeywords ''concatenate'')
   \<and> calculateKeywordScore [Word ''cat''] ''concatenate'' = 3 / 10"
  by (simp add: calculateKeywordScore_def Let_def extractKeywords_concatenate
      extractKeywords_cat concatenate_includes_cat)

text \<open>
  C7 (amended): the score is 0 for no query keywords and otherwise
  \<open>min 1 (baseScore + phraseBoost)\<close>, with \<open>baseScore\<close> the fraction of the query
  keywords found in the document's keyword set and \<open>phraseBoost\<close> 0.3 if the joined
  query keywords occur in the lowercased document, else 0.15 if two consecutive
  ones do, else 0. It is exactly 1 when all query keywords are document keywords
  and the full phrase occurs; when no query keyword matches it is the phrase
  boost alone, hence 0 only if no phrase occurs either.
\<close>

theorem calculateKeywordScore_formula:
  "calculateKeywordScore [] documentText = 0
   \<and> (queryKeywords \<noteq> [] \<longrightarrow>
        calculateKeywordScore queryKeywords documentText =
          min 1 (baseScore queryKeywords documentText + phraseBoost queryKeywords documentText))
   \<and> (queryKeywords \<noteq> [] \<and> set queryKeywords \<subseteq> set (extractKeywords documentText)
        \<and> str_includes (toLowerCase documentText) (joinKeywords queryKeywords) \<longrightarrow>
        calculateKeywordScore queryKeywords documentText = 1)
   \<and> (queryKeywords \<noteq> [] \<and> (\<forall>k\<in>set queryKeywords. k \<notin> set (extractKeywords documentText)) \<longrightarrow>
        calculateKeywordScore queryKeywords documentText = phraseBoost queryKeywords documentText)
   \<and> ((\<forall>k\<in>set queryKeywords. k \<notin> set (extractKeywords documentText))
        \<and> phraseBoost queryKeywords documentText = 0 \<longrightarrow>
        calculateKeywordScore queryKeywords documentText = 0)"
proof (intro conjI impI)
  show "calculateKeywordScore [] documentText = 0"
    by (simp add: calculateKeywordScore_def)
next
  assume "queryKeywords \<noteq> []"
  then show "calculateKeywordScore queryKeywords documentText =
      min 1 (baseScore queryKeywords documentText + phraseBoost queryKeywords documentText)"
    by (rule calculateKeywordScore_eq)
next
  assume a: "queryKeywords \<noteq> [] \<and> set queryKeywords \<subseteq> set (extractKeywords documentText)
      \<and> str_includes (toLowerCase documentText) (joinKeywords queryKeywords)"
  then have "baseScore queryKeywords documentText = 1"
    and "phraseBoost queryKeywords documentText = 3 / 10"
    by (simp_all add: baseScore_all phraseBoost_def)
  with a show "calculateKeywordScore queryKeywords documentText = 1"
    by (simp add: calculateKeywordScore_eq)
next
  assume a: "queryKeywords \<noteq> []
      \<and> (\<forall>k\<in>set queryKeywords. k \<notin> set (extractKeywords documentText))"
  then have "baseScore queryKeywords documentText = 0"
    by (simp add: baseScore_none)
  with a show "calculateKeywordScore queryKeywords documentText
      = phraseBoost queryKeywords documentText"
    using phraseBoost_range [of queryKeywords documentText]
    by (simp add: calculateKeywordScore_eq)
next
  assume a: "(\<forall>k\<in>set queryKeywords. k \<notin> set (extractKeywords documentText))
      \<and> phraseBoost queryKeywords documentText = 0"
  show "calculateKeywordScore queryKeywords documentText = 0"
  proof (cases "queryKeywords = []")
    case True
    then show ?thesis by (simp add: calculateKeywordScore_def)
  next
    case False
    with a show ?thesis
      by (simp add: calculateKeywordScore_eq baseScore_none)
  qed
qed

lemma extractKeywords_dog: "extractKeywords ''dog'' = [Word ''dog'']"
  by code_simp

lemma extractKeywords_black_cat: "extractKeywords ''black cat'' = [Word ''black'', Word ''cat'']"
  by code_simp

lemma extractKeywords_my_black_cat:
  "extractKeywords ''My black cat'' = [Word ''black'', Word ''cat'']"
  by code_simp

lemma my_black_cat_includes:
  "str_includes (toLowerCase ''My black cat'') (joinKeywords [Word ''black'', Word ''cat''])"
  by code_simp

lemma phraseBoost_dog_cat: "phraseBoost [Word ''dog''] ''My black cat'' = 0"
  by (simp add: phraseBoost_def) code_simp

theorem calculateKeywordScore_formula_witness:
  "calculateKeywordScore [Word ''black'', Word ''cat''] ''My black cat'' = 1
   \<and> calculateKeywordScore [Word ''dog''] ''My black cat'' = 0
   \<and> calculateKeywordScore [Word ''cat''] ''concatenate''
       = phraseBoost [Word ''cat''] ''concatenate''"
  using calculateKeywordScore_formula [of "''My black cat''" "[Word ''black'', Word ''cat'']"]
    calculateKeywordScore_formula [of "''My black cat''" "[Word ''dog'']"]
    calculateKeywordScore_formula [of "''concatenate''" "[Word ''cat'']"]
  by (simp add: extractKeywords_my_black_cat my_black_cat_includes phraseBoost_dog_cat
      extractKeywords_concatenate)

section \<open>The hybrid score\<close>

text \<open>
  C8 (as stated): the blend is \<open>vectorSim * w + keywordScore * (1 - w)\<close> and the
  default weight is 0.8. The second half fails: with the weight omitted, a
  vector similarity of 1 and a keyword score of 0 give 0.7, not 0.8.
\<close>

theorem calculateHybridScore_default_counterexample:
  "calculateHybridScore 1 0 None = 7 / 10 \<and>
   calculateHybridScore 1 0 None \<noteq> 1 * (8 / 10) + 0 * (1 - 8 / 10)"
  by (simp add: calculateHybridScore_def)

text \<open>
  C8 (amended): for every input the result is the linear blend
  \<open>vectorSim * w + keywordScore * (1 - w)\<close>, and an omitted weight means 0.7.
\<close>

theorem calculateHybridScore_blend:
  "calculateHybridScore v k (Some w) = v * w + k * (1 - w) \<and>
   calculateHybridScore v k None = v * (7 / 10) + k * (1 - 7 / 10)"
  by (simp add: calculateHybridScore_def)

section \<open>Chunking\<close>

lemma successively_nth:
  "successively P xs \<Longrightarrow> Suc i < length xs \<Longrightarrow> P (xs ! i) (xs ! Suc i)"
proof (induction P xs arbitrary: i rule: successively.induct)
  case (3 P x y xs)
  then show ?case by (cases i) simp_all
qed simp_all

lemma successively_snoc:
  "successively P (xs @ [x]) \<longleftrightarrow> successively P xs \<and> (xs \<noteq> [] \<longrightarrow> P (last xs) x)"
  by (auto simp: successively_append_iff)

lemma length_join_snoc:
  "length (join sep (xs @ [x])) =
     (if xs = [] then length x else length (join sep xs) + length sep + length x)"
  by (induction sep xs rule: join.induct) simp_all

lemma suffix_sliceFrom: "suffix (sliceFrom k xs) xs"
  by (simp add: sliceFrom_def suffix_drop)

text \<open>An invariant of one iteration is an invariant of the loop.\<close>

lemma chunkLoop_invariant:
  assumes step: "\<And>i line st ds. P ds st \<Longrightarrow> P (ds @ [line]) (chunkStep opts i line st)"
    and init: "P ds st"
  shows "P (ds @ ls) (chunkLoop opts i ls st)"
  using init
proof (induction ls arbitrary: i st ds)
  case Nil
  then show ?case by simp
next
  case (Cons l ls)
  from Cons.prems have "P (ds @ [l]) (chunkStep opts i l st)" by (rule step)
  then have "P ((ds @ [l]) @ ls) (chunkLoop opts (Suc i) ls (chunkStep opts i l st))"
    by (rule Cons.IH)
  then show ?case by simp
qed

lemma overlapLineCountOf_div:
  "overlapLineCountOf ov sz n = - ((- (ov * int n)) div sz)"
proof -
  have "real_of_int ov / real_of_int sz * real n = - (real_of_int (- (ov * int n)) / real_of_int sz)"
    by simp
  then show ?thesis
    unfolding overlapLineCountOf_def ceiling_def by (simp only: minus_minus floor_divide_of_int_eq)
qed

text \<open>
  The source takes the ceiling of a rounded product. For \<^verbatim>\<open>(14 / 50) * 25\<close> the
  double product is just above 7, with ceiling 8, where the exact product is 7.
\<close>

lemma overlap_product_rounds_up:
  "dmul (ddiv (Finite 14) (Finite 50)) (Finite 25) = Finite (7 + 1 / 2 ^ 50)
   \<and> overlapLineCountOf 14 50 25 = 7"
  by (simp add: double_eval overlapLineCountOf_div)

lemma chunkText_abc:
  "chunkText ''abc'' \<lparr>maxChars = 4, overlapChars = 1\<rparr> =
     [\<lparr>chunk_text = ''abc'', startLine = 0, endLine = 0, charStart = 0, charEnd = 3\<rparr>,
      \<lparr>chunk_text = ''abc'', startLine = 0, endLine = 0, charStart = 0, charEnd = 3\<rparr>]"
  by (simp add: chunkText_def chunkStep_def overlapLineCountOf_div sliceFrom_def Let_def)

lemma chunkText_long_line:
  "chunkText ''aaaaaa'' \<lparr>maxChars = 4, overlapChars = 1\<rparr> =
     [\<lparr>chunk_text = ''aaaaaa'', startLine = 0, endLine = 0, charStart = 0, charEnd = 6\<rparr>,
      \<lparr>chunk_text = ''aaaaaa'', startLine = 0, endLine = 0, charStart = 0, charEnd = 6\<rparr>]"
  by (simp add: chunkText_def chunkStep_def overlapLineCountOf_div sliceFrom_def Let_def)

lemma chunkText_two_lines:
  "chunkText ''aaaaaa\<newline>b'' \<lparr>maxChars = 4, overlapChars = 1\<rparr> =
     [\<lparr>chunk_text = ''aaaaaa'', startLine = 0, endLine = 0, charStart = 0, charEnd = 6\<rparr>,
      \<lparr>chunk_text = ''aaaaaa\<newline>b'', startLine = 0, endLine = 1, charStart = 0,
        charEnd = 8\<rparr>,
      \<lparr>chunk_text = ''b'', startLine = 1, endLine = 1, charStart = 7, charEnd = 8\<rparr>]"
  by (simp add: chunkText_def chunkStep_def overlapLineCountOf_div sliceFrom_def Let_def)

subsection \<open>Offsets\<close>

lemma offsets_ok_step: "offsets_ok st \<Longrightarrow> offsets_ok (chunkStep opts i line st)"
  by (auto simp: offsets_ok_def chunkStep_def Let_def successively_snoc)

lemma offsets_ok_loop:
  "offsets_ok (chunkLoop opts 0 ls
     \<lparr>chunks = [], currentLines = [], currentSize = 0, startLineVar = 0, charStartVar = 0\<rparr>)"
proof -
  let ?init = "\<lparr>chunks = [], currentLines = [], currentSize = 0, startLineVar = 0,
                 charStartVar = 0\<rparr>"
  have "offsets_ok ?init" by (simp add: offsets_ok_def)
  then show ?thesis
    using chunkLoop_invariant [where P = "\<lambda>_. offsets_ok" and ds = "[]" and st = ?init]
      offsets_ok_step by blast
qed

lemma chunkText_offsets:
  "(\<forall>c\<in>set (chunkText txt opts). charEnd c - charStart c = int (length (chunk_text c)))
   \<and> successively (\<lambda>a b. charStart b \<le> charEnd a) (chunkText txt opts)"
  using offsets_ok_loop [of opts "splitLines txt"]
  by (auto simp: chunkText_def Let_def offsets_ok_def successively_snoc)

text \<open>
  C10: for every text and options, every chunk of \<open>chunkText\<close> has
  \<open>charEnd - charStart\<close> equal to the length of its text, and each chunk after the
  first starts at or before the end of its predecessor. (This holds for every
  \<open>overlapChars\<close>, in particular for the positive ones of the claim.)
\<close>

theorem chunkText_offsets_continuity:
  "(\<forall>c\<in>set (chunkText s opts). charEnd c - charStart c = int (length (chunk_text c)))
   \<and> (\<forall>i. Suc i < length (chunkText s opts) \<longrightarrow>
          charStart (chunkText s opts ! Suc i) \<le> charEnd (chunkText s opts ! i))"
  using chunkText_offsets [of s opts]
    successively_nth [of "\<lambda>a b. charStart b \<le> charEnd a" "chunkText s opts"]
  by blast

theorem chunkText_offsets_continuity_witness:
  "charEnd (chunkText ''aaaaaa\<newline>b'' \<lparr>maxChars = 4, overlapChars = 1\<rparr> ! 1)
     - charStart (chunkText ''aaaaaa\<newline>b'' \<lparr>maxChars = 4, overlapChars = 1\<rparr> ! 1)
     = int (length (chunk_text
         (chunkText ''aaaaaa\<newline>b'' \<lparr>maxChars = 4, overlapChars = 1\<rparr> ! 1)))
   \<and> charStart (chunkText ''aaaaaa\<newline>b'' \<lparr>maxChars = 4, overlapChars = 1\<rparr> ! 2)
       \<le> charEnd (chunkText ''aaaaaa\<newline>b'' \<lparr>maxChars = 4, overlapChars = 1\<rparr> ! 1)
   \<and> length (chunkText ''aaaaaa\<newline>b'' \<lparr>maxChars = 4, overlapChars = 1\<rparr>) = 3"
  using chunkText_offsets_continuity
    [of "''aaaaaa\<newline>b''" "\<lparr>maxChars = 4, overlapChars = 1\<rparr>"]
  by (simp add: chunkText_two_lines)

subsection \<open>Sizes and line boundaries\<close>

lemma threshold_ok_step:
  assumes "threshold_ok opts st"
  shows "threshold_ok opts (chunkStep opts i line st)"
proof -
  let ?cur = "currentLines st @ [line]"
  let ?size = "currentSize st + int (length line) + 1"
  have size: "?size \<le> int (length (join [CHR 0x0A] ?cur)) + 1"
    using assms by (simp add: threshold_ok_def length_join_snoc split: if_splits)
  show ?thesis
  proof (cases "maxChars opts \<le> ?size")
    case True
    with size have "maxChars opts - 1 \<le> int (length (join [CHR 0x0A] ?cur))" by linarith
    with True assms show ?thesis
      by (simp add: threshold_ok_def chunkStep_def Let_def)
  next
    case False
    with size assms show ?thesis
      by (simp add: threshold_ok_def chunkStep_def Let_def)
  qed
qed

lemma lines_ok_step:
  assumes "lines_ok ds st"
  shows "lines_ok (ds @ [line]) (chunkStep opts i line st)"
proof -
  let ?cur = "currentLines st @ [line]"
  have cur: "suffix ?cur (ds @ [line])"
    using assms by (simp add: lines_ok_def)
  have old: "\<exists>ls. ls \<noteq> [] \<and> sublist ls (ds @ [line]) \<and> chunk_text c = join [CHR 0x0A] ls"
    if "c \<in> set (chunks st)" for c
  proof -
    from that assms obtain ls where "ls \<noteq> []" "sublist ls ds" "chunk_text c = join [CHR 0x0A] ls"
      by (auto simp: lines_ok_def)
    moreover from \<open>sublist ls ds\<close> obtain ps ss where "ds = ps @ ls @ ss"
      by (auto simp: sublist_def)
    then have "ds @ [line] = ps @ ls @ (ss @ [line])" by simp
    then have "sublist ls (ds @ [line])" unfolding sublist_def by blast
    ultimately show ?thesis by blast
  qed
  have new: "\<exists>ls. ls \<noteq> [] \<and> sublist ls (ds @ [line]) \<and> join [CHR 0x0A] ?cur = join [CHR 0x0A] ls"
    using cur by (intro exI [of _ ?cur]) simp
  have ov: "suffix (sliceFrom k ?cur) (ds @ [line])" for k
    using suffix_sliceFrom [of k ?cur] cur by (rule suffix_order.trans)
  show ?thesis
    using cur old new ov by (auto simp: lines_ok_def chunkStep_def Let_def)
qed

lemma chunkLoop_from_start:
  "threshold_ok opts (chunkLoop opts 0 ls
     \<lparr>chunks = [], currentLines = [], currentSize = 0, startLineVar = 0, charStartVar = 0\<rparr>)
   \<and> lines_ok ls (chunkLoop opts 0 ls
     \<lparr>chunks = [], currentLines = [], currentSize = 0, startLineVar = 0, charStartVar = 0\<rparr>)"
proof -
  let ?init = "\<lparr>chunks = [], currentLines = [], currentSize = 0, startLineVar = 0,
                 charStartVar = 0\<rparr>"
  have "threshold_ok opts ?init" and "lines_ok [] ?init"
    by (simp_all add: threshold_ok_def lines_ok_def)
  then show ?thesis
    using chunkLoop_invariant [where P = "\<lambda>_. threshold_ok opts" and ds = "[]" and st = ?init
        and opts = opts and ls = ls and i = 0]
      chunkLoop_invariant [where P = lines_ok and ds = "[]" and st = ?init
        and opts = opts and ls = ls and i = 0]
      threshold_ok_step lines_ok_step
    by simp
qed

lemma chunkText_threshold:
  "c \<in> set (butlast (chunkText s opts)) \<Longrightarrow> maxChars opts - 1 \<le> int (length (chunk_text c))"
  using chunkLoop_from_start [of opts "splitLines s"]
  by (auto simp: chunkText_def Let_def threshold_ok_def dest: in_set_butlastD split: if_splits)

lemma chunkText_whole_lines:
  assumes "c \<in> set (chunkText s opts)"
  shows "\<exists>ls. ls \<noteq> [] \<and> sublist ls (splitLines s) \<and> chunk_text c = join [CHR 0x0A] ls"
proof -
  let ?st = "chunkLoop opts 0 (splitLines s)
     \<lparr>chunks = [], currentLines = [], currentSize = 0, startLineVar = 0, charStartVar = 0\<rparr>"
  have ok: "lines_ok (splitLines s) ?st"
    using chunkLoop_from_start [of opts "splitLines s"] by simp
  from assms consider "c \<in> set (chunks ?st)"
    | "currentLines ?st \<noteq> []" "chunk_text c = join [CHR 0x0A] (currentLines ?st)"
    by (auto simp: chunkText_def Let_def split: if_splits)
  then show ?thesis
  proof cases
    case 1
    with ok show ?thesis by (simp add: lines_ok_def)
  next
    case 2
    moreover have "sublist (currentLines ?st) (splitLines s)"
      using ok by (simp add: lines_ok_def)
    ultimately show ?thesis by blast
  qed
qed

lemma join_Cons: "ys \<noteq> [] \<Longrightarrow> join sep (x # ys) = x @ sep @ join sep ys"
  by (cases ys) simp_all

lemma join_Cons_Cons: "join sep ((c # l) # ls) = c # join sep (l # ls)"
  by (cases ls) simp_all

lemma splitLines_not_Nil [simp]: "splitLines s \<noteq> []"
  by (induction s) (simp_all split: list.splits)

lemma join_splitLines: "join [CHR 0x0A] (splitLines s) = s"
proof (induction s)
  case Nil
  then show ?case by simp
next
  case (Cons c cs)
  then show ?case
    by (cases "splitLines cs") (simp_all add: join_Cons join_Cons_Cons)
qed

lemma size_splitLines: "(\<Sum>l\<leftarrow>splitLines s. int (length l) + 1) = int (length s) + 1"
proof (induction s)
  case Nil
  then show ?case by simp
next
  case (Cons c cs)
  then show ?case
    by (cases "splitLines cs") simp_all
qed

lemma splitLines_single: "CHR 0x0A \<notin> set s \<Longrightarrow> splitLines s = [s]"
  by (induction s) auto

lemma chunkLoop_below_threshold:
  "currentSize st + (\<Sum>l\<leftarrow>ls. int (length l) + 1) < maxChars opts \<Longrightarrow>
   chunkLoop opts i ls st =
     st\<lparr>currentLines := currentLines st @ ls,
        currentSize := currentSize st + (\<Sum>l\<leftarrow>ls. int (length l) + 1)\<rparr>"
proof (induction ls arbitrary: i st)
  case Nil
  then show ?case by simp
next
  case (Cons l ls)
  have nonneg: "0 \<le> (\<Sum>l\<leftarrow>ls. int (length l) + 1)"
    by (rule sum_list_nonneg) auto
  with Cons.prems have below: "currentSize st + int (length l) + 1 < maxChars opts"
    by simp
  then have step: "chunkStep opts i l st =
      st\<lparr>currentLines := currentLines st @ [l], currentSize := currentSize st + int (length l) + 1\<rparr>"
    by (simp add: chunkStep_def Let_def)
  from Cons.prems have "currentSize (chunkStep opts i l st) + (\<Sum>l\<leftarrow>ls. int (length l) + 1)
      < maxChars opts"
    by (simp add: step)
  then show ?case
    using Cons.IH [of "chunkStep opts i l st" "Suc i"] by (simp add: step)
qed

lemma chunkText_short:
  assumes "int (length s) + 1 < maxChars opts"
  shows "chunkText s opts =
     [\<lparr>chunk_text = s, startLine = 0, endLine = int (length (splitLines s)) - 1,
       charStart = 0, charEnd = int (length s)\<rparr>]"
proof -
  let ?init = "\<lparr>chunks = [], currentLines = [], currentSize = 0, startLineVar = 0,
                 charStartVar = 0\<rparr>"
  have "currentSize ?init + (\<Sum>l\<leftarrow>splitLines s. int (length l) + 1) < maxChars opts"
    using assms by (simp add: size_splitLines)
  then have "chunkLoop opts 0 (splitLines s) ?init =
      ?init\<lparr>currentLines := currentLines ?init @ splitLines s,
             currentSize := currentSize ?init + (\<Sum>l\<leftarrow>splitLines s. int (length l) + 1)\<rparr>"
    by (rule chunkLoop_below_threshold)
  then show ?thesis
    by (simp add: chunkText_def Let_def join_splitLines)
qed

lemma chunkText_single_line:
  assumes "CHR 0x0A \<notin> set s"
  shows "chunkText s opts \<noteq> []
     \<and> hd (chunkText s opts) =
         \<lparr>chunk_text = s, startLine = 0, endLine = 0, charStart = 0,
          charEnd = int (length s)\<rparr>"
  using assms by (simp add: chunkText_def chunkStep_def Let_def splitLines_single)

text \<open>
  C3 (as stated): every chunk but the last has at most \<open>maxChars\<close> characters, a
  single long line becomes one whole chunk, and a text of fewer than \<open>maxChars\<close>
  characters gives exactly one chunk. With \<open>maxChars = 4\<close>, the first of the three
  chunks of a six-character line followed by a second line has six characters,
  and the three-character text \<open>abc\<close> gives two chunks.
\<close>

theorem chunkText_size_counterexample:
  "length (chunkText ''aaaaaa\<newline>b'' \<lparr>maxChars = 4, overlapChars = 1\<rparr>) = 3
   \<and> length (chunk_text
         (chunkText ''aaaaaa\<newline>b'' \<lparr>maxChars = 4, overlapChars = 1\<rparr> ! 0)) = 6
   \<and> length ''abc'' < 4
   \<and> length (chunkText ''abc'' \<lparr>maxChars = 4, overlapChars = 1\<rparr>) = 2"
  by (simp add: chunkText_two_lines chunkText_abc)

text \<open>
  C3 (amended): for every text and options, every chunk except possibly the last
  has reached the threshold, so it has at least \<open>maxChars - 1\<close> characters (a chunk
  is closed after the line that reaches \<open>maxChars\<close>, which is therefore no upper
  bound); every chunk is the join of one or more consecutive whole lines of the
  text, so no line is split; a text without a line feed is, whole, the first
  chunk; and a text of fewer than \<open>maxChars - 1\<close> characters gives exactly one
  chunk, the whole text.
\<close>

theorem chunkText_chunks:
  "(\<forall>c\<in>set (butlast (chunkText s opts)). maxChars opts - 1 \<le> int (length (chunk_text c)))
   \<and> (\<forall>c\<in>set (chunkText s opts).
         \<exists>ls. ls \<noteq> [] \<and> sublist ls (splitLines s) \<and> chunk_text c = join [CHR 0x0A] ls)
   \<and> (CHR 0x0A \<notin> set s \<longrightarrow>
         chunkText s opts \<noteq> []
         \<and> hd (chunkText s opts) =
             \<lparr>chunk_text = s, startLine = 0, endLine = 0, charStart = 0,
              charEnd = int (length s)\<rparr>)
   \<and> (int (length s) + 1 < maxChars opts \<longrightarrow>
         chunkText s opts =
           [\<lparr>chunk_text = s, startLine = 0, endLine = int (length (splitLines s)) - 1,
             charStart = 0, charEnd = int (length s)\<rparr>])"
  using chunkText_threshold [of _ s opts] chunkText_whole_lines [of _ s opts]
    chunkText_single_line [of s opts] chunkText_short [of s opts]
  by blast

theorem chunkText_chunks_witness:
  "maxChars \<lparr>maxChars = 4, overlapChars = 1\<rparr> - 1
     \<le> int (length (chunk_text
           (chunkText ''aaaaaa\<newline>b'' \<lparr>maxChars = 4, overlapChars = 1\<rparr> ! 1)))
   \<and> (\<exists>ls. ls \<noteq> [] \<and> sublist ls (splitLines ''aaaaaa\<newline>b'')
         \<and> chunk_text
             (chunkText ''aaaaaa\<newline>b'' \<lparr>maxChars = 4, overlapChars = 1\<rparr> ! 2)
           = join [CHR 0x0A] ls)
   \<and> hd (chunkText ''abc'' \<lparr>maxChars = 4, overlapChars = 1\<rparr>) =
       \<lparr>chunk_text = ''abc'', startLine = 0, endLine = 0, charStart = 0, charEnd = 3\<rparr>
   \<and> chunkText ''ab'' \<lparr>maxChars = 4, overlapChars = 1\<rparr> =
       [\<lparr>chunk_text = ''ab'', startLine = 0, endLine = 0, charStart = 0, charEnd = 2\<rparr>]"
  using chunkText_chunks [of "''aaaaaa\<newline>b''" "\<lparr>maxChars = 4, overlapChars = 1\<rparr>"]
    chunkText_chunks [of "''abc''" "\<lparr>maxChars = 4, overlapChars = 1\<rparr>"]
    chunkText_chunks [of "''ab''" "\<lparr>maxChars = 4, overlapChars = 1\<rparr>"]
  by (simp add: chunkText_two_lines)

section \<open>Retrieval\<close>

lemma retrieveContext_returns: "\<exists>r. outcome (retrieveContext env q opts) = Returns r"
  by (simp add: retrieveContext_def Let_def split: completion.splits)

lemma retrieveContext_config_throws:
  "getConfig env = Throws e \<Longrightarrow>
   retrieveContext env q opts =
     \<lparr>outcome = Returns (Failure e), memorySimilarityCalls = 0, chunkSimilarityCalls = 0\<rparr>"
  by (simp add: retrieveContext_def retrieveContext_try_def)

lemma retrieveContext_embedding_fails:
  "getConfig env = Returns cfg \<Longrightarrow> generateEmbedding env (preprocessQuery q) = Failure e \<Longrightarrow>
   retrieveContext env q opts =
     \<lparr>outcome = Returns (Failure e), memorySimilarityCalls = 0, chunkSimilarityCalls = 0\<rparr>"
  by (simp add: retrieveContext_def retrieveContext_try_def)

lemma retrieveContext_memories_fail:
  "getConfig env = Returns cfg \<Longrightarrow> generateEmbedding env (preprocessQuery q) = Success emb \<Longrightarrow>
   getAllMemories env = Failure e \<Longrightarrow>
   retrieveContext env q opts =
     \<lparr>outcome = Returns (Failure e), memorySimilarityCalls = 0, chunkSimilarityCalls = 0\<rparr>"
  by (simp add: retrieveContext_def retrieveContext_try_def)

lemma retrieveContext_chunks_fail:
  "getConfig env = Returns cfg \<Longrightarrow> generateEmbedding env (preprocessQuery q) = Success emb \<Longrightarrow>
   getAllMemories env = Success ms \<Longrightarrow> getAllSummaryChunks env = Failure e \<Longrightarrow>
   retrieveContext env q opts =
     \<lparr>outcome = Returns (Failure e), memorySimilarityCalls = 0, chunkSimilarityCalls = 0\<rparr>"
  by (simp add: retrieveContext_def retrieveContext_try_def)

text \<open>When all four collaborators answer, the retrieval is steps 4 to 6 under the catch clause.\<close>

lemma retrieveContext_loaded:
  assumes "getConfig env = Returns cfg" "generateEmbedding env (preprocessQuery q) = Success emb"
    "getAllMemories env = Success ms" "getAllSummaryChunks env = Success cs"
  shows "retrieveContext env q opts =
     (let r = searchAndFilter q emb (extractKeywords q) ms cs (memoryTopK_of opts cfg)
                (summaryTopK_of opts cfg) (minRelevance_of opts cfg)
      in case outcome r of Throws e \<Rightarrow> r\<lparr>outcome := Returns (Failure e)\<rparr> | Returns _ \<Rightarrow> r)"
  using assms by (simp add: retrieveContext_def retrieveContext_try_def Let_def)

lemma retrieveContext_Success:
  assumes "outcome (retrieveContext env q opts) = Returns (Success ctx)"
  shows "\<exists>cfg emb ms cs. getConfig env = Returns cfg
      \<and> generateEmbedding env (preprocessQuery q) = Success emb
      \<and> getAllMemories env = Success ms \<and> getAllSummaryChunks env = Success cs
      \<and> outcome (searchAndFilter q emb (extractKeywords q) ms cs (memoryTopK_of opts cfg)
                (summaryTopK_of opts cfg) (minRelevance_of opts cfg)) = Returns (Success ctx)"
proof (cases "getConfig env")
  case (Throws e)
  with assms show ?thesis by (simp add: retrieveContext_config_throws)
next
  case cfg: (Returns cfg)
  show ?thesis
  proof (cases "generateEmbedding env (preprocessQuery q)")
    case (Failure e)
    with assms cfg show ?thesis by (simp add: retrieveContext_embedding_fails)
  next
    case emb: (Success emb)
    show ?thesis
    proof (cases "getAllMemories env")
      case (Failure e)
      with assms cfg emb show ?thesis by (simp add: retrieveContext_memories_fail)
    next
      case ms: (Success ms)
      show ?thesis
      proof (cases "getAllSummaryChunks env")
        case (Failure e)
        with assms cfg emb ms show ?thesis by (simp add: retrieveContext_chunks_fail)
      next
        case cs: (Success cs)
        from assms show ?thesis
          unfolding retrieveContext_loaded [OF cfg emb ms cs]
          using cfg emb ms cs by (auto simp: Let_def split: completion.splits)
      qed
    qed
  qed
qed

lemma searchAndFilter_Success:
  assumes "outcome (searchAndFilter q emb kws ms cs mk sk minRel) = Returns (Success ctx)"
  shows "\<exists>memoryResults chunkResults.
      snd (memoryResults_of emb ms mk) = Returns memoryResults
    \<and> snd (chunkResults_of emb cs sk) = Returns chunkResults
    \<and> ctx = \<lparr>memories =
                map (\<lambda>h. (result_data h, hybridScore h))
                  (filter (\<lambda>h. minRel \<le> hybridScore h)
                    (sortDescending hybridScore (map (applyHybridScoring kws) memoryResults))),
              summaryChunks =
                map (\<lambda>r. (result_data r, similarity r))
                  (filter (\<lambda>r. minRel \<le> similarity r) chunkResults),
              query = q, queryEmbedding = emb\<rparr>"
  using assms
  by (auto simp: searchAndFilter_def Let_def split: prod.splits completion.splits)

lemma searchAndFilter_calls:
  "memorySimilarityCalls (searchAndFilter q emb kws ms cs mk sk minRel) = fst (memoryResults_of emb ms mk)"
  by (auto simp: searchAndFilter_def Let_def split: prod.splits completion.splits)

lemma applyHybridScoring_score:
  "hybridScore (applyHybridScoring kws r) =
     (if similarity r \<ge> 7 / 10 then similarity r
      else calculateHybridScore (similarity r)
             (calculateKeywordScore kws (content (result_data r))) (Some (8 / 10)))"
  by (simp add: applyHybridScoring_def Let_def)

lemma sorted_filter_scores:
  "sorted_wrt (\<lambda>x y. snd y \<le> snd x)
     (map (\<lambda>h. (result_data h, hybridScore h))
        (filter P (sortDescending hybridScore hs)))"
proof -
  have "sorted_wrt (\<lambda>x y. hybridScore y \<le> hybridScore x) (sortDescending hybridScore hs)"
    by (rule sorted_sortDescending)
  then have "sorted_wrt (\<lambda>x y. hybridScore y \<le> hybridScore x)
      (filter P (sortDescending hybridScore hs))"
    by (rule sorted_wrt_filter)
  then show ?thesis by (simp add: sorted_wrt_map)
qed

lemma extractKeywords_pizza: "extractKeywords ''pizza'' = [Word ''pizza'']"
  by code_simp

lemma extractKeywords_loves_pizza:
  "extractKeywords ''User loves pizza'' = [Word ''user'', Word ''loves'', Word ''pizza'']"
  by code_simp

lemma loves_pizza_includes:
  "str_includes (toLowerCase ''User loves pizza'') (joinKeywords [Word ''pizza''])"
  by code_simp

lemma keywordScore_pizza: "calculateKeywordScore [Word ''pizza''] ''User loves pizza'' = 1"
  by (simp add: calculateKeywordScore_def Let_def extractKeywords_loves_pizza
      loves_pizza_includes)

lemma memoryResults_of_sample:
  "memoryResults_of [1, 0] [pizzaMemory, pythonMemory] 10
   = (2, Returns [\<lparr>result_id = ''m1'', similarity = 1, result_data = pythonMemory\<rparr>,
                  \<lparr>result_id = ''m2'', similarity = 0, result_data = pizzaMemory\<rparr>])"
  by (simp add: memoryResults_of_def findTopSimilar_def cosineSimilarity_def sliceTo_def
      sortDescending_def pizzaMemory_def pythonMemory_def)

lemma chunkResults_of_sample:
  "chunkResults_of [1, 0] [sampleChunk [1, 0]] k
   = (1, Returns (sliceTo k [\<lparr>result_id = ''c1'', similarity = 1,
                              result_data = sampleChunk [1, 0]\<rparr>]))"
  by (simp add: chunkResults_of_def findTopSimilar_def cosineSimilarity_def
      sortDescending_def sampleChunk_def)

lemma chunkResults_of_mismatch:
  "chunkResults_of [1, 0] [sampleChunk [1, 0, 0]] k = (1, Throws (DimensionMismatch 2 3))"
  by (simp add: chunkResults_of_def findTopSimilar_def cosineSimilarity_def sampleChunk_def)

lemma sample_contents:
  "content pizzaMemory = ''User loves pizza''"
  "content pythonMemory = ''User is a Python developer''"
  by (simp_all add: pizzaMemory_def pythonMemory_def)

lemma retrieveContext_sample:
  "retrieveContext (sampleEnv [pizzaMemory, pythonMemory] [sampleChunk [1, 0]]) ''pizza''
     (Some \<lparr>memoryTopK = None, summaryTopK = None, minRelevance = Some (1 / 10)\<rparr>)
   = \<lparr>outcome = Returns (Success
         \<lparr>memories = [(pythonMemory, 1), (pizzaMemory, 2 / 10)],
          summaryChunks = [(sampleChunk [1, 0], 1)],
          query = ''pizza'', queryEmbedding = [1, 0]\<rparr>),
      memorySimilarityCalls = 2, chunkSimilarityCalls = 1\<rparr>"
proof -
  have five: "\<lceil>(10 :: real) / 2\<rceil> = 5" by simp
  show ?thesis
    unfolding retrieveContext_def retrieveContext_try_def searchAndFilter_def
    by (simp add: sampleEnv_def memoryTopK_of_def summaryTopK_of_def minRelevance_of_def
        memoryResults_of_sample chunkResults_of_sample five extractKeywords_pizza
        applyHybridScoring_def sample_contents keywordScore_pizza calculateHybridScore_def
        sortDescending_def sliceTo_def Let_def)
qed

lemma memoryResults_of_python:
  "memoryResults_of [1, 0] [pythonMemory] 10
   = (1, Returns [\<lparr>result_id = ''m1'', similarity = 1, result_data = pythonMemory\<rparr>])"
  by (simp add: memoryResults_of_def findTopSimilar_def cosineSimilarity_def sliceTo_def
      sortDescending_def pythonMemory_def)

text \<open>
  C1: when \<open>retrieveContext\<close> succeeds, the memory candidates are the results of
  the vector top-K search; each candidate's hybrid score is its similarity when
  that is at least 0.7 and otherwise \<open>calculateHybridScore\<close> of the similarity and
  the keyword score with weight 0.8; the returned memories are the candidates
  sorted descending by hybrid score, cut at \<open>minRelevance\<close>, each paired with its
  hybrid score; and the returned summary chunks are the chunk candidates whose
  similarity is at least \<open>minRelevance\<close>, paired with that similarity, with no
  hybrid scoring.
\<close>

theorem retrieveContext_hybrid_ranking:
  assumes "outcome (retrieveContext env q opts) = Returns (Success ctx)"
  shows "\<exists>cfg emb ms cs memoryResults chunkResults.
      getConfig env = Returns cfg
    \<and> generateEmbedding env (preprocessQuery q) = Success emb
    \<and> getAllMemories env = Success ms \<and> getAllSummaryChunks env = Success cs
    \<and> snd (memoryResults_of emb ms (memoryTopK_of opts cfg)) = Returns memoryResults
    \<and> snd (chunkResults_of emb cs (summaryTopK_of opts cfg)) = Returns chunkResults
    \<and> (\<forall>r\<in>set memoryResults.
          hybridScore (applyHybridScoring (extractKeywords q) r) =
            (if similarity r \<ge> 7 / 10 then similarity r
             else calculateHybridScore (similarity r)
                    (calculateKeywordScore (extractKeywords q) (content (result_data r)))
                    (Some (8 / 10))))
    \<and> memories ctx =
          map (\<lambda>h. (result_data h, hybridScore h))
            (filter (\<lambda>h. minRelevance_of opts cfg \<le> hybridScore h)
              (sortDescending hybridScore
                (map (applyHybridScoring (extractKeywords q)) memoryResults)))
    \<and> sorted_wrt (\<lambda>x y. snd y \<le> snd x) (memories ctx)
    \<and> (\<forall>x\<in>set (memories ctx). minRelevance_of opts cfg \<le> snd x)
    \<and> summaryChunks ctx =
          map (\<lambda>r. (result_data r, similarity r))
            (filter (\<lambda>r. minRelevance_of opts cfg \<le> similarity r) chunkResults)"
proof -
  from assms obtain cfg emb ms cs where
    loaded: "getConfig env = Returns cfg" "generateEmbedding env (preprocessQuery q) = Success emb"
      "getAllMemories env = Success ms" "getAllSummaryChunks env = Success cs"
    and run: "outcome (searchAndFilter q emb (extractKeywords q) ms cs (memoryTopK_of opts cfg)
                (summaryTopK_of opts cfg) (minRelevance_of opts cfg)) = Returns (Success ctx)"
    using retrieveContext_Success by blast
  from run obtain memoryResults chunkResults where
    mr: "snd (memoryResults_of emb ms (memoryTopK_of opts cfg)) = Returns memoryResults"
    and cr: "snd (chunkResults_of emb cs (summaryTopK_of opts cfg)) = Returns chunkResults"
    and ctx: "ctx = \<lparr>memories =
                map (\<lambda>h. (result_data h, hybridScore h))
                  (filter (\<lambda>h. minRelevance_of opts cfg \<le> hybridScore h)
                    (sortDescending hybridScore
                      (map (applyHybridScoring (extractKeywords q)) memoryResults))),
              summaryChunks =
                map (\<lambda>r. (result_data r, similarity r))
                  (filter (\<lambda>r. minRelevance_of opts cfg \<le> similarity r) chunkResults),
              query = q, queryEmbedding = emb\<rparr>"
    using searchAndFilter_Success by blast
  have score: "\<forall>r\<in>set memoryResults.
          hybridScore (applyHybridScoring (extractKeywords q) r) =
            (if similarity r \<ge> 7 / 10 then similarity r
             else calculateHybridScore (similarity r)
                    (calculateKeywordScore (extractKeywords q) (content (result_data r)))
                    (Some (8 / 10)))"
    by (simp add: applyHybridScoring_score)
  have sorted: "sorted_wrt (\<lambda>x y. snd y \<le> snd x) (memories ctx)"
    unfolding ctx by (simp add: sorted_filter_scores)
  have thr: "\<forall>x\<in>set (memories ctx). minRelevance_of opts cfg \<le> snd x"
    unfolding ctx by auto
  from loaded mr cr score sorted thr ctx show ?thesis
    by (intro exI [of _ cfg] exI [of _ emb] exI [of _ ms] exI [of _ cs]
        exI [of _ memoryResults] exI [of _ chunkResults]) simp
qed

theorem retrieveContext_hybrid_ranking_witness:
  "outcome (retrieveContext (sampleEnv [pizzaMemory, pythonMemory] [sampleChunk [1, 0]]) ''pizza''
      (Some \<lparr>memoryTopK = None, summaryTopK = None, minRelevance = Some (1 / 10)\<rparr>))
     = Returns (Success
         \<lparr>memories = [(pythonMemory, 1), (pizzaMemory, 2 / 10)],
          summaryChunks = [(sampleChunk [1, 0], 1)],
          query = ''pizza'', queryEmbedding = [1, 0]\<rparr>)
   \<and> sorted_wrt (\<lambda>x y. snd y \<le> snd x) [(pythonMemory, 1 :: real), (pizzaMemory, 2 / 10)]
   \<and> (\<exists>memoryResults.
         snd (memoryResults_of [1, 0] [pizzaMemory, pythonMemory] 10) = Returns memoryResults
         \<and> [(pythonMemory, 1), (pizzaMemory, 2 / 10)] =
             map (\<lambda>h. (result_data h, hybridScore h))
               (filter (\<lambda>h. 1 / 10 \<le> hybridScore h)
                 (sortDescending hybridScore
                   (map (applyHybridScoring (extractKeywords ''pizza'')) memoryResults))))"
proof -
  let ?env = "sampleEnv [pizzaMemory, pythonMemory] [sampleChunk [1, 0]]"
  let ?opts = "Some \<lparr>memoryTopK = None, summaryTopK = None, minRelevance = Some (1 / 10)\<rparr>"
  let ?ctx = "\<lparr>memories = [(pythonMemory, 1), (pizzaMemory, 2 / 10)],
               summaryChunks = [(sampleChunk [1, 0], 1)],
               query = ''pizza'', queryEmbedding = [1, 0]\<rparr>"
  have run: "outcome (retrieveContext ?env ''pizza'' ?opts) = Returns (Success ?ctx)"
    by (simp add: retrieveContext_sample)
  from retrieveContext_hybrid_ranking [OF run] obtain cfg emb ms memoryResults where
    "getConfig ?env = Returns cfg" "generateEmbedding ?env (preprocessQuery ''pizza'') = Success emb"
    "getAllMemories ?env = Success ms"
    "snd (memoryResults_of emb ms (memoryTopK_of ?opts cfg)) = Returns memoryResults"
    "memories ?ctx =
       map (\<lambda>h. (result_data h, hybridScore h))
         (filter (\<lambda>h. minRelevance_of ?opts cfg \<le> hybridScore h)
           (sortDescending hybridScore
             (map (applyHybridScoring (extractKeywords ''pizza'')) memoryResults)))"
    "sorted_wrt (\<lambda>x y. snd y \<le> snd x) (memories ?ctx)"
    by blast
  then show ?thesis
    using run by (auto simp: sampleEnv_def memoryTopK_of_def minRelevance_of_def)
qed

subsection \<open>Failures and empty collections\<close>

lemma memoryCalls_empty:
  "getAllMemories env = Success [] \<Longrightarrow> memorySimilarityCalls (retrieveContext env q opts) = 0"
  by (auto simp: retrieveContext_def retrieveContext_try_def searchAndFilter_def
      memoryResults_of_def Let_def split: completion.splits Result.splits prod.splits)

lemma chunkCalls_empty:
  "getAllSummaryChunks env = Success [] \<Longrightarrow> chunkSimilarityCalls (retrieveContext env q opts) = 0"
  by (auto simp: retrieveContext_def retrieveContext_try_def searchAndFilter_def
      chunkResults_of_def Let_def split: completion.splits Result.splits prod.splits)

lemma memories_empty:
  assumes "getAllMemories env = Success []"
    and "outcome (retrieveContext env q opts) = Returns (Success ctx)"
  shows "memories ctx = []"
proof -
  from assms(2) obtain cfg emb ms cs where "getAllMemories env = Success ms"
    and run: "outcome (searchAndFilter q emb (extractKeywords q) ms cs (memoryTopK_of opts cfg)
                (summaryTopK_of opts cfg) (minRelevance_of opts cfg)) = Returns (Success ctx)"
    using retrieveContext_Success by blast
  with assms(1) have "ms = []" by simp
  with run have "outcome (searchAndFilter q emb (extractKeywords q) [] cs (memoryTopK_of opts cfg)
                (summaryTopK_of opts cfg) (minRelevance_of opts cfg)) = Returns (Success ctx)"
    by simp
  from searchAndFilter_Success [OF this] obtain memoryResults where
    "snd (memoryResults_of emb [] (memoryTopK_of opts cfg)) = Returns memoryResults"
    and "memories ctx =
           map (\<lambda>h. (result_data h, hybridScore h))
             (filter (\<lambda>h. minRelevance_of opts cfg \<le> hybridScore h)
               (sortDescending hybridScore
                 (map (applyHybridScoring (extractKeywords q)) memoryResults)))"
    by auto
  then show ?thesis
    by (simp add: memoryResults_of_def sortDescending_def)
qed

lemma summaryChunks_empty:
  assumes "getAllSummaryChunks env = Success []"
    and "outcome (retrieveContext env q opts) = Returns (Success ctx)"
  shows "summaryChunks ctx = []"
proof -
  from assms(2) obtain cfg emb ms cs where "getAllSummaryChunks env = Success cs"
    and run: "outcome (searchAndFilter q emb (extractKeywords q) ms cs (memoryTopK_of opts cfg)
                (summaryTopK_of opts cfg) (minRelevance_of opts cfg)) = Returns (Success ctx)"
    using retrieveContext_Success by blast
  with assms(1) have "cs = []" by simp
  with run have "outcome (searchAndFilter q emb (extractKeywords q) ms [] (memoryTopK_of opts cfg)
                (summaryTopK_of opts cfg) (minRelevance_of opts cfg)) = Returns (Success ctx)"
    by simp
  from searchAndFilter_Success [OF this] obtain chunkResults where
    "snd (chunkResults_of emb [] (summaryTopK_of opts cfg)) = Returns chunkResults"
    and "summaryChunks ctx =
           map (\<lambda>r. (result_data r, similarity r))
             (filter (\<lambda>r. minRelevance_of opts cfg \<le> similarity r) chunkResults)"
    by auto
  then show ?thesis
    by (simp add: chunkResults_of_def)
qed

lemma retrieveContext_both_empty:
  assumes "getConfig env = Returns cfg" "generateEmbedding env (preprocessQuery q) = Success emb"
    "getAllMemories env = Success []" "getAllSummaryChunks env = Success []"
  shows "retrieveContext env q opts =
     \<lparr>outcome = Returns (Success \<lparr>memories = [], summaryChunks = [], query = q,
                                   queryEmbedding = emb\<rparr>),
      memorySimilarityCalls = 0, chunkSimilarityCalls = 0\<rparr>"
  unfolding retrieveContext_loaded [OF assms]
  by (simp add: searchAndFilter_def memoryResults_of_def chunkResults_of_def sortDescending_def)

lemma retrieveContext_catches:
  "outcome (retrieveContext_try env q opts) = Throws e \<Longrightarrow>
   outcome (retrieveContext env q opts) = Returns (Failure e)"
  by (simp add: retrieveContext_def Let_def)

lemma retrieveContext_try_mismatch:
  "outcome (retrieveContext_try (sampleEnv [pythonMemory] [sampleChunk [1, 0, 0]]) ''python'' None)
     = Throws (DimensionMismatch 2 3)"
  unfolding retrieveContext_try_def searchAndFilter_def
  by (simp add: sampleEnv_def memoryTopK_of_def summaryTopK_of_def minRelevance_of_def
      memoryResults_of_python chunkResults_of_mismatch Let_def)

text \<open>
  C4: \<open>retrieveContext\<close> always returns a result and never throws (an exception
  thrown inside becomes a failure); if the embedding call fails, or else the
  load of the memories, or else the load of the summary chunks, the retrieval
  returns exactly that failure, which carries no context; and for an empty
  memory collection, or an empty chunk collection, no similarity is computed for
  that category and its part of a successful result is empty.
\<close>

theorem retrieveContext_failure_semantics:
  "(\<exists>r. outcome (retrieveContext env q opts) = Returns r)
   \<and> (outcome (retrieveContext_try env q opts) = Throws e \<longrightarrow>
        outcome (retrieveContext env q opts) = Returns (Failure e))
   \<and> (getConfig env = Returns cfg \<and> generateEmbedding env (preprocessQuery q) = Failure e \<longrightarrow>
        outcome (retrieveContext env q opts) = Returns (Failure e))
   \<and> (getConfig env = Returns cfg \<and> generateEmbedding env (preprocessQuery q) = Success emb
        \<and> getAllMemories env = Failure e \<longrightarrow>
        outcome (retrieveContext env q opts) = Returns (Failure e))
   \<and> (getConfig env = Returns cfg \<and> generateEmbedding env (preprocessQuery q) = Success emb
        \<and> getAllMemories env = Success ms \<and> getAllSummaryChunks env = Failure e \<longrightarrow>
        outcome (retrieveContext env q opts) = Returns (Failure e))
   \<and> (getAllMemories env = Success [] \<longrightarrow>
        memorySimilarityCalls (retrieveContext env q opts) = 0
        \<and> (\<forall>ctx. outcome (retrieveContext env q opts) = Returns (Success ctx) \<longrightarrow>
               memories ctx = []))
   \<and> (getAllSummaryChunks env = Success [] \<longrightarrow>
        chunkSimilarityCalls (retrieveContext env q opts) = 0
        \<and> (\<forall>ctx. outcome (retrieveContext env q opts) = Returns (Success ctx) \<longrightarrow>
               summaryChunks ctx = []))
   \<and> (getConfig env = Returns cfg \<and> generateEmbedding env (preprocessQuery q) = Success emb
        \<and> getAllMemories env = Success [] \<and> getAllSummaryChunks env = Success [] \<longrightarrow>
        retrieveContext env q opts =
          \<lparr>outcome = Returns (Success \<lparr>memories = [], summaryChunks = [], query = q,
                                        queryEmbedding = emb\<rparr>),
           memorySimilarityCalls = 0, chunkSimilarityCalls = 0\<rparr>)"
  using retrieveContext_returns [of env q opts] retrieveContext_catches [of env q opts e]
    retrieveContext_embedding_fails [of env cfg q e opts]
    retrieveContext_memories_fail [of env cfg q emb e opts]
    retrieveContext_chunks_fail [of env cfg q emb ms e opts]
    memoryCalls_empty [of env q opts] memories_empty [of env q opts]
    chunkCalls_empty [of env q opts] summaryChunks_empty [of env q opts]
    retrieveContext_both_empty [of env cfg q emb opts]
  by simp

theorem retrieveContext_failure_semantics_witness:
  "outcome (retrieveContext
      ((sampleEnv [] [])\<lparr>generateEmbedding := (\<lambda>_. Failure (CollaboratorError ''no embedding''))\<rparr>)
      ''python'' None) = Returns (Failure (CollaboratorError ''no embedding''))
   \<and> outcome (retrieveContext
      ((sampleEnv [] [])\<lparr>getAllMemories := Failure (CollaboratorError ''no store'')\<rparr>)
      ''python'' None) = Returns (Failure (CollaboratorError ''no store''))
   \<and> outcome (retrieveContext
      ((sampleEnv [pythonMemory] [])\<lparr>getAllSummaryChunks := Failure (CollaboratorError ''no store'')\<rparr>)
      ''python'' None) = Returns (Failure (CollaboratorError ''no store''))
   \<and> outcome (retrieveContext (sampleEnv [pythonMemory] [sampleChunk [1, 0, 0]]) ''python'' None)
       = Returns (Failure (DimensionMismatch 2 3))
   \<and> retrieveContext (sampleEnv [] []) ''python'' None =
       \<lparr>outcome = Returns (Success \<lparr>memories = [], summaryChunks = [], query = ''python'',
                                     queryEmbedding = [1, 0]\<rparr>),
        memorySimilarityCalls = 0, chunkSimilarityCalls = 0\<rparr>
   \<and> memorySimilarityCalls (retrieveContext (sampleEnv [] [sampleChunk [1, 0]]) ''python'' None) = 0
   \<and> chunkSimilarityCalls (retrieveContext (sampleEnv [pythonMemory] []) ''python'' None) = 0"
proof (intro conjI)
  let ?cfg = "\<lparr>topK = 10, relevanceThreshold = 65 / 100\<rparr>"
  show "outcome (retrieveContext
      ((sampleEnv [] [])\<lparr>generateEmbedding := (\<lambda>_. Failure (CollaboratorError ''no embedding''))\<rparr>)
      ''python'' None) = Returns (Failure (CollaboratorError ''no embedding''))"
    using retrieveContext_failure_semantics
      [where env = "(sampleEnv [] [])\<lparr>generateEmbedding := (\<lambda>_. Failure (CollaboratorError ''no embedding''))\<rparr>"
         and q = "''python''" and opts = None and e = "CollaboratorError ''no embedding''"
         and cfg = ?cfg]
    by (simp add: sampleEnv_def)
  show "outcome (retrieveContext
      ((sampleEnv [] [])\<lparr>getAllMemories := Failure (CollaboratorError ''no store'')\<rparr>)
      ''python'' None) = Returns (Failure (CollaboratorError ''no store''))"
    using retrieveContext_failure_semantics
      [where env = "(sampleEnv [] [])\<lparr>getAllMemories := Failure (CollaboratorError ''no store'')\<rparr>"
         and q = "''python''" and opts = None and e = "CollaboratorError ''no store''"
         and cfg = ?cfg and emb = "[1, 0]"]
    by (simp add: sampleEnv_def)
  show "outcome (retrieveContext
      ((sampleEnv [pythonMemory] [])\<lparr>getAllSummaryChunks := Failure (CollaboratorError ''no store'')\<rparr>)
      ''python'' None) = Returns (Failure (CollaboratorError ''no store''))"
    using retrieveContext_failure_semantics
      [where env = "(sampleEnv [pythonMemory] [])\<lparr>getAllSummaryChunks := Failure (CollaboratorError ''no store'')\<rparr>"
         and q = "''python''" and opts = None and e = "CollaboratorError ''no store''"
         and cfg = ?cfg and emb = "[1, 0]" and ms = "[pythonMemory]"]
    by (simp add: sampleEnv_def)
  show "outcome (retrieveContext (sampleEnv [pythonMemory] [sampleChunk [1, 0, 0]]) ''python'' None)
       = Returns (Failure (DimensionMismatch 2 3))"
    using retrieveContext_failure_semantics
      [where env = "sampleEnv [pythonMemory] [sampleChunk [1, 0, 0]]"
         and q = "''python''" and opts = None and e = "DimensionMismatch 2 3"]
      retrieveContext_try_mismatch
    by simp
  show "retrieveContext (sampleEnv [] []) ''python'' None =
       \<lparr>outcome = Returns (Success \<lparr>memories = [], summaryChunks = [], query = ''python'',
                                     queryEmbedding = [1, 0]\<rparr>),
        memorySimilarityCalls = 0, chunkSimilarityCalls = 0\<rparr>"
    using retrieveContext_failure_semantics
      [where env = "sampleEnv [] []" and q = "''python''" and opts = None
         and cfg = ?cfg and emb = "[1, 0]"]
    by (simp add: sampleEnv_def)
  show "memorySimilarityCalls
      (retrieveContext (sampleEnv [] [sampleChunk [1, 0]]) ''python'' None) = 0"
    using retrieveContext_failure_semantics
      [where env = "sampleEnv [] [sampleChunk [1, 0]]" and q = "''python''" and opts = None]
    by (simp add: sampleEnv_def)
  show "chunkSimilarityCalls (retrieveContext (sampleEnv [pythonMemory] []) ''python'' None) = 0"
    using retrieveContext_failure_semantics
      [where env = "sampleEnv [pythonMemory] []" and q = "''python''" and opts = None]
    by (simp add: sampleEnv_def)
qed


subsection \<open>Searching memories only\<close>

lemma searchMemories_only_memories:
  "outcome (searchMemories env q k) = Returns (Success ms) \<longleftrightarrow>
   (\<exists>ctx. outcome (retrieveContext env q
              (Some \<lparr>memoryTopK = Some (case k of None \<Rightarrow> 10 | Some k \<Rightarrow> k),
                     summaryTopK = Some 0, minRelevance = None\<rparr>)) = Returns (Success ctx)
          \<and> memories ctx = ms)"
  by (auto simp: searchMemories_def searchMemories_try_def Let_def
      split: completion.splits Result.splits)

lemma searchMemories_sample:
  "outcome (searchMemories (sampleEnv [pythonMemory] []) ''python'' None)
     = Returns (Success [(pythonMemory, 1)])"
  unfolding searchMemories_def searchMemories_try_def retrieveContext_def retrieveContext_try_def
    searchAndFilter_def
  by (simp add: sampleEnv_def memoryTopK_of_def summaryTopK_of_def minRelevance_of_def
      memoryResults_of_python chunkResults_of_def applyHybridScoring_def sortDescending_def Let_def)

lemma searchMemories_mismatch:
  "outcome (searchMemories (sampleEnv [pythonMemory] [sampleChunk [1, 0, 0]]) ''python'' None)
     = Returns (Failure (DimensionMismatch 2 3))"
  unfolding searchMemories_def searchMemories_try_def retrieveContext_def retrieveContext_try_def
    searchAndFilter_def
  by (simp add: sampleEnv_def memoryTopK_of_def summaryTopK_of_def minRelevance_of_def
      memoryResults_of_python chunkResults_of_mismatch applyHybridScoring_def sortDescending_def
      Let_def)

lemma searchMemories_scores_chunks:
  "chunkSimilarityCalls (searchMemories (sampleEnv [pythonMemory] [sampleChunk [1, 0]]) ''python'' None)
     = 1"
  unfolding searchMemories_def searchMemories_try_def retrieveContext_def retrieveContext_try_def
    searchAndFilter_def
  by (simp add: sampleEnv_def memoryTopK_of_def summaryTopK_of_def minRelevance_of_def
      memoryResults_of_python chunkResults_of_sample applyHybridScoring_def sortDescending_def
      sliceTo_def Let_def)

text \<open>
  C9: \<open>searchMemories\<close> skips the summary search, computes no similarity against
  a stored summary chunk, and succeeds or fails independently of the stored
  chunks. On the code it calls \<open>retrieveContext\<close> with \<open>summaryTopK = 0\<close>, which
  still loads the chunks and scores every one of them before the slice keeps
  none: with one memory and no chunk the search succeeds, with the same memory
  and a chunk whose embedding has another dimension it fails, and with a chunk
  of the right dimension one similarity is computed against it.
\<close>

theorem searchMemories_depends_on_chunks:
  "outcome (searchMemories (sampleEnv [pythonMemory] []) ''python'' None)
     = Returns (Success [(pythonMemory, 1)])
   \<and> outcome (searchMemories (sampleEnv [pythonMemory] [sampleChunk [1, 0, 0]]) ''python'' None)
     = Returns (Failure (DimensionMismatch 2 3))
   \<and> chunkSimilarityCalls
        (searchMemories (sampleEnv [pythonMemory] [sampleChunk [1, 0]]) ''python'' None) = 1"
  using searchMemories_sample searchMemories_mismatch searchMemories_scores_chunks by simp

end
